theory Spec2Isabelle
  imports Complex_Main
begin

section \<open>The entity schema layer of \<^verbatim>\<open>app/models.py\<close>\<close>

text \<open>
  The module declares five string enumerations, eight table classes and nine schema
  classes. Every class is a list of annotated attributes, each with a \<^verbatim>\<open>Field(...)\<close>
  that carries a default and constraints. The module has no function of its own: what it
  does is what the library does with these declarations when the data of a class are
  validated and when a class is constructed. The theory embeds the declarations as data,
  one definition per class and in the order of the source, and gives them those two
  meanings: validation, which checks every declared constraint, and construction, which
  validates for a \<^verbatim>\<open>table=False\<close> class and checks nothing for a \<^verbatim>\<open>table=True\<close> class.
\<close>

subsection \<open>Python values and annotations\<close>

text \<open>
  A Python \<^verbatim>\<open>str\<close> is a sequence of code points and \<^verbatim>\<open>len\<close> counts code points, so a
  string value is a list of code points. \<^verbatim>\<open>Decimal\<close> values are finite decimal fractions,
  modelled as rationals; a \<^verbatim>\<open>datetime\<close> is a point on an integer time line.
\<close>

type_synonym py_str = "nat list"

definition str :: "string \<Rightarrow> py_str" where
  "str s = map of_char s"

datatype py_val =
    PNone
  | PBool bool
  | PInt int
  | PDecimal rat
  | PStr py_str
  | PDatetime int
  | PList "py_val list"
  | PDict "(py_val \<times> py_val) list"

text \<open>An \<^verbatim>\<open>Enum\<close> class: its members, each a name and a value, in declaration order.\<close>

type_synonym enum_class = "(string \<times> string) list"

datatype py_type =
    TInt
  | TStr
  | TBool
  | TDecimal
  | TDatetime
  | TAny
  | TEnum enum_class
  | TOptional py_type
  | TList py_type
  | TDict py_type py_type

text \<open>
  The classes mix in \<^verbatim>\<open>str\<close>, so a member is the string of its value:
  \<^verbatim>\<open>MissionStatus.PENDING == "pending"\<close>.
\<close>

definition member :: "enum_class \<Rightarrow> string \<Rightarrow> py_val" where
  "member E n = (case map_of E n of Some v \<Rightarrow> PStr (str v) | None \<Rightarrow> PNone)"

definition members :: "enum_class \<Rightarrow> py_val list" where
  "members E = map (\<lambda>(n, v). PStr (str v)) E"

subsection \<open>Field declarations\<close>

datatype default_spec =
    PydanticUndefined
  | Default py_val
  | DefaultFactory_utcnow

record Field_info =
  default' :: default_spec
  max_length :: "nat option"
  ge :: "rat option"
  le :: "rat option"
  primary_key :: bool
  foreign_key :: "string option"
  sa_column :: "string option"

text \<open>\<^verbatim>\<open>Field()\<close> with no argument: a required field with no constraint.\<close>

definition Field' :: Field_info where
  "Field' = \<lparr>default' = PydanticUndefined, max_length = None, ge = None, le = None,
     primary_key = False, foreign_key = None, sa_column = None\<rparr>"

type_synonym field_decl = "string \<times> py_type \<times> Field_info"

text \<open>
  A class: its table name (\<open>None\<close> for \<^verbatim>\<open>table=False\<close>), its fields in declaration order,
  and its \<^verbatim>\<open>Relationship\<close> attributes (attribute, \<^verbatim>\<open>back_populates\<close>), which are not columns
  and take no part in validation.
\<close>

record model_class =
  tablename :: "string option"
  model_fields :: "field_decl list"
  relationships :: "(string \<times> string) list"

subsection \<open>Enums\<close>

definition GlyphCategory :: enum_class where
  "GlyphCategory =
    [(''PROTECTION'', ''protection''),
     (''TRANSFORMATION'', ''transformation''),
     (''HEALING'', ''healing''),
     (''COMMUNICATION'', ''communication''),
     (''ENERGY'', ''energy'')]"

definition MissionStatus :: enum_class where
  "MissionStatus =
    [(''PENDING'', ''pending''),
     (''ACTIVE'', ''active''),
     (''COMPLETED'', ''completed''),
     (''FAILED'', ''failed''),
     (''SUSPENDED'', ''suspended'')]"

definition MissionPriority :: enum_class where
  "MissionPriority =
    [(''LOW'', ''low''),
     (''MEDIUM'', ''medium''),
     (''HIGH'', ''high''),
     (''CRITICAL'', ''critical'')]"

definition EmotionalState :: enum_class where
  "EmotionalState =
    [(''HARMONIOUS'', ''harmonious''),
     (''TURBULENT'', ''turbulent''),
     (''RESONANT'', ''resonant''),
     (''CHAOTIC'', ''chaotic''),
     (''SERENE'', ''serene'')]"

definition ShieldStatus :: enum_class where
  "ShieldStatus =
    [(''OPTIMAL'', ''optimal''),
     (''DEGRADED'', ''degraded''),
     (''CRITICAL'', ''critical''),
     (''OFFLINE'', ''offline''),
     (''REGENERATING'', ''regenerating'')]"

subsection \<open>Persistent models\<close>

definition Glyph :: model_class where
  "Glyph = \<lparr>tablename = Some ''glyphs'', model_fields =
    [(''id'', TOptional TInt, Field'\<lparr>default' := Default PNone, primary_key := True\<rparr>),
     (''name'', TStr, Field'\<lparr>max_length := Some 100\<rparr>),
     (''symbol'', TStr, Field'\<lparr>max_length := Some 10\<rparr>),
     (''category'', TEnum GlyphCategory,
        Field'\<lparr>default' := Default (member GlyphCategory ''ENERGY'')\<rparr>),
     (''power_level'', TDecimal,
        Field'\<lparr>default' := Default (PDecimal 1), ge := Some 0, le := Some 100\<rparr>),
     (''description'', TStr, Field'\<lparr>default' := Default (PStr []), max_length := Some 1000\<rparr>),
     (''properties'', TDict TStr TAny,
        Field'\<lparr>default' := Default (PDict []), sa_column := Some ''JSON''\<rparr>),
     (''is_active'', TBool, Field'\<lparr>default' := Default (PBool True)\<rparr>),
     (''discovered_at'', TDatetime, Field'\<lparr>default' := DefaultFactory_utcnow\<rparr>),
     (''last_used'', TOptional TDatetime, Field'\<lparr>default' := Default PNone\<rparr>)],
    relationships = [(''transformation_steps'', ''glyph'')]\<rparr>"

definition TransformationProtocol :: model_class where
  "TransformationProtocol = \<lparr>tablename = Some ''transformation_protocols'', model_fields =
    [(''id'', TOptional TInt, Field'\<lparr>default' := Default PNone, primary_key := True\<rparr>),
     (''name'', TStr, Field'\<lparr>max_length := Some 150\<rparr>),
     (''description'', TStr, Field'\<lparr>default' := Default (PStr []), max_length := Some 2000\<rparr>),
     (''duration_minutes'', TInt, Field'\<lparr>default' := Default (PInt 60), ge := Some 1\<rparr>),
     (''energy_cost'', TDecimal, Field'\<lparr>default' := Default (PDecimal 10), ge := Some 0\<rparr>),
     (''success_rate'', TDecimal,
        Field'\<lparr>default' := Default (PDecimal 85), ge := Some 0, le := Some 100\<rparr>),
     (''requirements'', TList TStr,
        Field'\<lparr>default' := Default (PList []), sa_column := Some ''JSON''\<rparr>),
     (''effects'', TDict TStr TAny,
        Field'\<lparr>default' := Default (PDict []), sa_column := Some ''JSON''\<rparr>),
     (''is_active'', TBool, Field'\<lparr>default' := Default (PBool True)\<rparr>),
     (''created_at'', TDatetime, Field'\<lparr>default' := DefaultFactory_utcnow\<rparr>),
     (''last_modified'', TDatetime, Field'\<lparr>default' := DefaultFactory_utcnow\<rparr>)],
    relationships = [(''steps'', ''protocol''), (''missions'', ''protocol'')]\<rparr>"

definition TransformationStep :: model_class where
  "TransformationStep = \<lparr>tablename = Some ''transformation_steps'', model_fields =
    [(''id'', TOptional TInt, Field'\<lparr>default' := Default PNone, primary_key := True\<rparr>),
     (''protocol_id'', TInt, Field'\<lparr>foreign_key := Some ''transformation_protocols.id''\<rparr>),
     (''glyph_id'', TOptional TInt,
        Field'\<lparr>default' := Default PNone, foreign_key := Some ''glyphs.id''\<rparr>),
     (''step_order'', TInt, Field'\<lparr>ge := Some 1\<rparr>),
     (''instruction'', TStr, Field'\<lparr>max_length := Some 500\<rparr>),
     (''duration_seconds'', TInt, Field'\<lparr>default' := Default (PInt 300), ge := Some 1\<rparr>),
     (''parameters'', TDict TStr TAny,
        Field'\<lparr>default' := Default (PDict []), sa_column := Some ''JSON''\<rparr>)],
    relationships = [(''protocol'', ''steps''), (''glyph'', ''transformation_steps'')]\<rparr>"

definition Mission :: model_class where
  "Mission = \<lparr>tablename = Some ''missions'', model_fields =
    [(''id'', TOptional TInt, Field'\<lparr>default' := Default PNone, primary_key := True\<rparr>),
     (''title'', TStr, Field'\<lparr>max_length := Some 200\<rparr>),
     (''description'', TStr, Field'\<lparr>default' := Default (PStr []), max_length := Some 2000\<rparr>),
     (''status'', TEnum MissionStatus,
        Field'\<lparr>default' := Default (member MissionStatus ''PENDING'')\<rparr>),
     (''priority'', TEnum MissionPriority,
        Field'\<lparr>default' := Default (member MissionPriority ''MEDIUM'')\<rparr>),
     (''protocol_id'', TOptional TInt,
        Field'\<lparr>default' := Default PNone, foreign_key := Some ''transformation_protocols.id''\<rparr>),
     (''assigned_entity'', TStr, Field'\<lparr>default' := Default (PStr []), max_length := Some 100\<rparr>),
     (''target_location'', TStr, Field'\<lparr>default' := Default (PStr []), max_length := Some 200\<rparr>),
     (''objectives'', TList TStr,
        Field'\<lparr>default' := Default (PList []), sa_column := Some ''JSON''\<rparr>),
     (''progress_percentage'', TDecimal,
        Field'\<lparr>default' := Default (PDecimal 0), ge := Some 0, le := Some 100\<rparr>),
     (''estimated_completion'', TOptional TDatetime, Field'\<lparr>default' := Default PNone\<rparr>),
     (''actual_completion'', TOptional TDatetime, Field'\<lparr>default' := Default PNone\<rparr>),
     (''created_at'', TDatetime, Field'\<lparr>default' := DefaultFactory_utcnow\<rparr>),
     (''started_at'', TOptional TDatetime, Field'\<lparr>default' := Default PNone\<rparr>),
     (''mission_metadata'', TDict TStr TAny,
        Field'\<lparr>default' := Default (PDict []), sa_column := Some ''JSON''\<rparr>)],
    relationships = [(''protocol'', ''missions''), (''log_entries'', ''mission'')]\<rparr>"

definition MissionLogEntry :: model_class where
  "MissionLogEntry = \<lparr>tablename = Some ''mission_log_entries'', model_fields =
    [(''id'', TOptional TInt, Field'\<lparr>default' := Default PNone, primary_key := True\<rparr>),
     (''mission_id'', TInt, Field'\<lparr>foreign_key := Some ''missions.id''\<rparr>),
     (''entry_type'', TStr,
        Field'\<lparr>default' := Default (PStr (str ''update'')), max_length := Some 50\<rparr>),
     (''message'', TStr, Field'\<lparr>max_length := Some 1000\<rparr>),
     (''progress_delta'', TDecimal, Field'\<lparr>default' := Default (PDecimal 0)\<rparr>),
     (''created_at'', TDatetime, Field'\<lparr>default' := DefaultFactory_utcnow\<rparr>),
     (''log_metadata'', TDict TStr TAny,
        Field'\<lparr>default' := Default (PDict []), sa_column := Some ''JSON''\<rparr>)],
    relationships = [(''mission'', ''log_entries'')]\<rparr>"

definition EmotionalResonance :: model_class where
  "EmotionalResonance = \<lparr>tablename = Some ''emotional_resonances'', model_fields =
    [(''id'', TOptional TInt, Field'\<lparr>default' := Default PNone, primary_key := True\<rparr>),
     (''entity_name'', TStr, Field'\<lparr>max_length := Some 100\<rparr>),
     (''current_state'', TEnum EmotionalState,
        Field'\<lparr>default' := Default (member EmotionalState ''SERENE'')\<rparr>),
     (''resonance_level'', TDecimal,
        Field'\<lparr>default' := Default (PDecimal 50), ge := Some 0, le := Some 100\<rparr>),
     (''harmony_index'', TDecimal,
        Field'\<lparr>default' := Default (PDecimal 50), ge := Some 0, le := Some 100\<rparr>),
     (''emotional_spectrum'', TDict TStr TDecimal,
        Field'\<lparr>default' := Default (PDict []), sa_column := Some ''JSON''\<rparr>),
     (''sync_stability'', TDecimal,
        Field'\<lparr>default' := Default (PDecimal 75), ge := Some 0, le := Some 100\<rparr>),
     (''last_fluctuation'', TOptional TDatetime, Field'\<lparr>default' := Default PNone\<rparr>),
     (''recorded_at'', TDatetime, Field'\<lparr>default' := DefaultFactory_utcnow\<rparr>),
     (''notes'', TStr, Field'\<lparr>default' := Default (PStr []), max_length := Some 500\<rparr>)],
    relationships = []\<rparr>"

definition QuantumShield :: model_class where
  "QuantumShield = \<lparr>tablename = Some ''quantum_shields'', model_fields =
    [(''id'', TOptional TInt, Field'\<lparr>default' := Default PNone, primary_key := True\<rparr>),
     (''shield_name'', TStr, Field'\<lparr>max_length := Some 100\<rparr>),
     (''status'', TEnum ShieldStatus,
        Field'\<lparr>default' := Default (member ShieldStatus ''OPTIMAL'')\<rparr>),
     (''integrity_percentage'', TDecimal,
        Field'\<lparr>default' := Default (PDecimal 100), ge := Some 0, le := Some 100\<rparr>),
     (''energy_level'', TDecimal,
        Field'\<lparr>default' := Default (PDecimal 100), ge := Some 0, le := Some 100\<rparr>),
     (''power_consumption'', TDecimal, Field'\<lparr>default' := Default (PDecimal 25), ge := Some 0\<rparr>),
     (''protection_radius_km'', TDecimal,
        Field'\<lparr>default' := Default (PDecimal 10), ge := Some 0\<rparr>),
     (''last_breach_attempt'', TOptional TDatetime, Field'\<lparr>default' := Default PNone\<rparr>),
     (''uptime_hours'', TDecimal, Field'\<lparr>default' := Default (PDecimal 0), ge := Some 0\<rparr>),
     (''configuration'', TDict TStr TAny,
        Field'\<lparr>default' := Default (PDict []), sa_column := Some ''JSON''\<rparr>),
     (''status_updated_at'', TDatetime, Field'\<lparr>default' := DefaultFactory_utcnow\<rparr>)],
    relationships = [(''healing_modules'', ''shield'')]\<rparr>"

definition HealingModule :: model_class where
  "HealingModule = \<lparr>tablename = Some ''healing_modules'', model_fields =
    [(''id'', TOptional TInt, Field'\<lparr>default' := Default PNone, primary_key := True\<rparr>),
     (''shield_id'', TInt, Field'\<lparr>foreign_key := Some ''quantum_shields.id''\<rparr>),
     (''module_name'', TStr, Field'\<lparr>max_length := Some 100\<rparr>),
     (''is_operational'', TBool, Field'\<lparr>default' := Default (PBool True)\<rparr>),
     (''healing_rate'', TDecimal, Field'\<lparr>default' := Default (PDecimal 10), ge := Some 0\<rparr>),
     (''energy_efficiency'', TDecimal,
        Field'\<lparr>default' := Default (PDecimal 85), ge := Some 0, le := Some 100\<rparr>),
     (''target_systems'', TList TStr,
        Field'\<lparr>default' := Default (PList []), sa_column := Some ''JSON''\<rparr>),
     (''last_activation'', TOptional TDatetime, Field'\<lparr>default' := Default PNone\<rparr>),
     (''total_healings'', TInt, Field'\<lparr>default' := Default (PInt 0), ge := Some 0\<rparr>),
     (''created_at'', TDatetime, Field'\<lparr>default' := DefaultFactory_utcnow\<rparr>)],
    relationships = [(''shield'', ''healing_modules'')]\<rparr>"

subsection \<open>Non-persistent schemas\<close>

definition GlyphCreate :: model_class where
  "GlyphCreate = \<lparr>tablename = None, model_fields =
    [(''name'', TStr, Field'\<lparr>max_length := Some 100\<rparr>),
     (''symbol'', TStr, Field'\<lparr>max_length := Some 10\<rparr>),
     (''category'', TEnum GlyphCategory,
        Field'\<lparr>default' := Default (member GlyphCategory ''ENERGY'')\<rparr>),
     (''power_level'', TDecimal,
        Field'\<lparr>default' := Default (PDecimal 1), ge := Some 0, le := Some 100\<rparr>),
     (''description'', TStr, Field'\<lparr>default' := Default (PStr []), max_length := Some 1000\<rparr>),
     (''properties'', TDict TStr TAny, Field'\<lparr>default' := Default (PDict [])\<rparr>)],
    relationships = []\<rparr>"

definition GlyphUpdate :: model_class where
  "GlyphUpdate = \<lparr>tablename = None, model_fields =
    [(''name'', TOptional TStr, Field'\<lparr>default' := Default PNone, max_length := Some 100\<rparr>),
     (''symbol'', TOptional TStr, Field'\<lparr>default' := Default PNone, max_length := Some 10\<rparr>),
     (''category'', TOptional (TEnum GlyphCategory), Field'\<lparr>default' := Default PNone\<rparr>),
     (''power_level'', TOptional TDecimal,
        Field'\<lparr>default' := Default PNone, ge := Some 0, le := Some 100\<rparr>),
     (''description'', TOptional TStr,
        Field'\<lparr>default' := Default PNone, max_length := Some 1000\<rparr>),
     (''properties'', TOptional (TDict TStr TAny), Field'\<lparr>default' := Default PNone\<rparr>),
     (''is_active'', TOptional TBool, Field'\<lparr>default' := Default PNone\<rparr>)],
    relationships = []\<rparr>"

definition TransformationProtocolCreate :: model_class where
  "TransformationProtocolCreate = \<lparr>tablename = None, model_fields =
    [(''name'', TStr, Field'\<lparr>max_length := Some 150\<rparr>),
     (''description'', TStr, Field'\<lparr>default' := Default (PStr []), max_length := Some 2000\<rparr>),
     (''duration_minutes'', TInt, Field'\<lparr>default' := Default (PInt 60), ge := Some 1\<rparr>),
     (''energy_cost'', TDecimal, Field'\<lparr>default' := Default (PDecimal 10), ge := Some 0\<rparr>),
     (''success_rate'', TDecimal,
        Field'\<lparr>default' := Default (PDecimal 85), ge := Some 0, le := Some 100\<rparr>),
     (''requirements'', TList TStr, Field'\<lparr>default' := Default (PList [])\<rparr>),
     (''effects'', TDict TStr TAny, Field'\<lparr>default' := Default (PDict [])\<rparr>)],
    relationships = []\<rparr>"

definition MissionCreate :: model_class where
  "MissionCreate = \<lparr>tablename = None, model_fields =
    [(''title'', TStr, Field'\<lparr>max_length := Some 200\<rparr>),
     (''description'', TStr, Field'\<lparr>default' := Default (PStr []), max_length := Some 2000\<rparr>),
     (''priority'', TEnum MissionPriority,
        Field'\<lparr>default' := Default (member MissionPriority ''MEDIUM'')\<rparr>),
     (''protocol_id'', TOptional TInt, Field'\<lparr>default' := Default PNone\<rparr>),
     (''assigned_entity'', TStr, Field'\<lparr>default' := Default (PStr []), max_length := Some 100\<rparr>),
     (''target_location'', TStr, Field'\<lparr>default' := Default (PStr []), max_length := Some 200\<rparr>),
     (''objectives'', TList TStr, Field'\<lparr>default' := Default (PList [])\<rparr>),
     (''estimated_completion'', TOptional TDatetime, Field'\<lparr>default' := Default PNone\<rparr>)],
    relationships = []\<rparr>"

definition MissionUpdate :: model_class where
  "MissionUpdate = \<lparr>tablename = None, model_fields =
    [(''title'', TOptional TStr, Field'\<lparr>default' := Default PNone, max_length := Some 200\<rparr>),
     (''description'', TOptional TStr,
        Field'\<lparr>default' := Default PNone, max_length := Some 2000\<rparr>),
     (''status'', TOptional (TEnum MissionStatus), Field'\<lparr>default' := Default PNone\<rparr>),
     (''priority'', TOptional (TEnum MissionPriority), Field'\<lparr>default' := Default PNone\<rparr>),
     (''progress_percentage'', TOptional TDecimal,
        Field'\<lparr>default' := Default PNone, ge := Some 0, le := Some 100\<rparr>),
     (''assigned_entity'', TOptional TStr,
        Field'\<lparr>default' := Default PNone, max_length := Some 100\<rparr>),
     (''target_location'', TOptional TStr,
        Field'\<lparr>default' := Default PNone, max_length := Some 200\<rparr>),
     (''objectives'', TOptional (TList TStr), Field'\<lparr>default' := Default PNone\<rparr>)],
    relationships = []\<rparr>"

definition EmotionalResonanceCreate :: model_class where
  "EmotionalResonanceCreate = \<lparr>tablename = None, model_fields =
    [(''entity_name'', TStr, Field'\<lparr>max_length := Some 100\<rparr>),
     (''current_state'', TEnum EmotionalState,
        Field'\<lparr>default' := Default (member EmotionalState ''SERENE'')\<rparr>),
     (''resonance_level'', TDecimal,
        Field'\<lparr>default' := Default (PDecimal 50), ge := Some 0, le := Some 100\<rparr>),
     (''harmony_index'', TDecimal,
        Field'\<lparr>default' := Default (PDecimal 50), ge := Some 0, le := Some 100\<rparr>),
     (''emotional_spectrum'', TDict TStr TDecimal, Field'\<lparr>default' := Default (PDict [])\<rparr>),
     (''sync_stability'', TDecimal,
        Field'\<lparr>default' := Default (PDecimal 75), ge := Some 0, le := Some 100\<rparr>),
     (''notes'', TStr, Field'\<lparr>default' := Default (PStr []), max_length := Some 500\<rparr>)],
    relationships = []\<rparr>"

definition QuantumShieldCreate :: model_class where
  "QuantumShieldCreate = \<lparr>tablename = None, model_fields =
    [(''shield_name'', TStr, Field'\<lparr>max_length := Some 100\<rparr>),
     (''status'', TEnum ShieldStatus,
        Field'\<lparr>default' := Default (member ShieldStatus ''OPTIMAL'')\<rparr>),
     (''integrity_percentage'', TDecimal,
        Field'\<lparr>default' := Default (PDecimal 100), ge := Some 0, le := Some 100\<rparr>),
     (''energy_level'', TDecimal,
        Field'\<lparr>default' := Default (PDecimal 100), ge := Some 0, le := Some 100\<rparr>),
     (''power_consumption'', TDecimal, Field'\<lparr>default' := Default (PDecimal 25), ge := Some 0\<rparr>),
     (''protection_radius_km'', TDecimal,
        Field'\<lparr>default' := Default (PDecimal 10), ge := Some 0\<rparr>),
     (''configuration'', TDict TStr TAny, Field'\<lparr>default' := Default (PDict [])\<rparr>)],
    relationships = []\<rparr>"

definition QuantumShieldUpdate :: model_class where
  "QuantumShieldUpdate = \<lparr>tablename = None, model_fields =
    [(''shield_name'', TOptional TStr,
        Field'\<lparr>default' := Default PNone, max_length := Some 100\<rparr>),
     (''status'', TOptional (TEnum ShieldStatus), Field'\<lparr>default' := Default PNone\<rparr>),
     (''integrity_percentage'', TOptional TDecimal,
        Field'\<lparr>default' := Default PNone, ge := Some 0, le := Some 100\<rparr>),
     (''energy_level'', TOptional TDecimal,
        Field'\<lparr>default' := Default PNone, ge := Some 0, le := Some 100\<rparr>),
     (''power_consumption'', TOptional TDecimal, Field'\<lparr>default' := Default PNone, ge := Some 0\<rparr>),
     (''protection_radius_km'', TOptional TDecimal,
        Field'\<lparr>default' := Default PNone, ge := Some 0\<rparr>),
     (''configuration'', TOptional (TDict TStr TAny), Field'\<lparr>default' := Default PNone\<rparr>)],
    relationships = []\<rparr>"

definition HealingModuleCreate :: model_class where
  "HealingModuleCreate = \<lparr>tablename = None, model_fields =
    [(''shield_id'', TInt, Field'),
     (''module_name'', TStr, Field'\<lparr>max_length := Some 100\<rparr>),
     (''healing_rate'', TDecimal, Field'\<lparr>default' := Default (PDecimal 10), ge := Some 0\<rparr>),
     (''energy_efficiency'', TDecimal,
        Field'\<lparr>default' := Default (PDecimal 85), ge := Some 0, le := Some 100\<rparr>),
     (''target_systems'', TList TStr, Field'\<lparr>default' := Default (PList [])\<rparr>)],
    relationships = []\<rparr>"

text \<open>The classes of the module by name, table classes first, in the order of the source.\<close>

definition module_classes :: "(string \<times> model_class) list" where
  "module_classes =
    [(''Glyph'', Glyph),
     (''TransformationProtocol'', TransformationProtocol),
     (''TransformationStep'', TransformationStep),
     (''Mission'', Mission),
     (''MissionLogEntry'', MissionLogEntry),
     (''EmotionalResonance'', EmotionalResonance),
     (''QuantumShield'', QuantumShield),
     (''HealingModule'', HealingModule),
     (''GlyphCreate'', GlyphCreate),
     (''GlyphUpdate'', GlyphUpdate),
     (''TransformationProtocolCreate'', TransformationProtocolCreate),
     (''MissionCreate'', MissionCreate),
     (''MissionUpdate'', MissionUpdate),
     (''EmotionalResonanceCreate'', EmotionalResonanceCreate),
     (''QuantumShieldCreate'', QuantumShieldCreate),
     (''QuantumShieldUpdate'', QuantumShieldUpdate),
     (''HealingModuleCreate'', HealingModuleCreate)]"

subsection \<open>Validation\<close>

text \<open>
  The error kinds are those validation reports for the checks the declarations ask for;
  a \<^verbatim>\<open>ValidationError\<close> lists every failing field with its error kind.
\<close>

datatype error_type =
    missing
  | type_error py_type
  | enum
  | string_too_long nat
  | greater_than_equal rat
  | less_than_equal rat

datatype error =
    ValidationError "(string \<times> error_type) list"
  | ReferenceError string
  | IntegrityError string
  | UnmappedInstanceError

type_synonym kwargs = "string \<rightharpoonup> py_val"
type_synonym row = "(string \<times> py_val) list"

fun all_right :: "('e + 'a) list \<Rightarrow> 'e + 'a list" where
  "all_right [] = Inr []"
| "all_right (Inl e # rs) = Inl e"
| "all_right (Inr x # rs) = (case all_right rs of Inl e \<Rightarrow> Inl e | Inr xs \<Rightarrow> Inr (x # xs))"

text \<open>
  The library validates in lax mode: a value that is not of the annotated type may be
  converted to it, as \<^verbatim>\<open>'2'\<close> or \<^verbatim>\<open>True\<close> to an \<^verbatim>\<open>int\<close>, \<^verbatim>\<open>'5.5'\<close> to a \<^verbatim>\<open>Decimal\<close>, \<^verbatim>\<open>1\<close> to a
  \<^verbatim>\<open>bool\<close>, an ISO string to a \<^verbatim>\<open>datetime\<close>. Which values are converted, and to what, is
  the library's table and no part of the module. The table is a parameter \<open>lax\<close> of the
  validation, and every property of validation is proved for every table.
\<close>

type_synonym conversion = "py_type \<Rightarrow> py_val \<Rightarrow> py_val option"

text \<open>The table that converts nothing, for concrete inputs that are of their type.\<close>

definition no_conversion :: conversion where
  "no_conversion t v = None"

fun of_type :: "py_type \<Rightarrow> py_val \<Rightarrow> bool" where
  "of_type TInt (PInt n) = True"
| "of_type TStr (PStr s) = True"
| "of_type TBool (PBool b) = True"
| "of_type TDecimal (PDecimal d) = True"
| "of_type TDatetime (PDatetime t) = True"
| "of_type t v = False"

definition convert :: "conversion \<Rightarrow> py_type \<Rightarrow> py_val \<Rightarrow> error_type + py_val" where
  "convert lax t v =
    (case lax t v of
       None \<Rightarrow> Inl (type_error t)
     | Some v' \<Rightarrow> if of_type t v' then Inr v' else Inl (type_error t))"

text \<open>
  The check of a value against an annotation. A value of the annotated type is taken as
  it is, and an \<^verbatim>\<open>int\<close> given for a \<^verbatim>\<open>Decimal\<close> becomes that decimal; any other value for
  a scalar field is accepted when the table converts it and is a type error otherwise.
  An enum field takes a member, which is the string of its value, and nothing else.
  \<^verbatim>\<open>None\<close> is a value of \<^verbatim>\<open>Optional[T]\<close> only. Lists and dicts are checked item by item.
\<close>

fun check_type :: "conversion \<Rightarrow> py_type \<Rightarrow> py_val \<Rightarrow> error_type + py_val" where
  "check_type lax TInt v = (case v of PInt n \<Rightarrow> Inr v | _ \<Rightarrow> convert lax TInt v)"
| "check_type lax TStr v = (case v of PStr s \<Rightarrow> Inr v | _ \<Rightarrow> convert lax TStr v)"
| "check_type lax TBool v = (case v of PBool b \<Rightarrow> Inr v | _ \<Rightarrow> convert lax TBool v)"
| "check_type lax TDecimal v =
    (case v of PDecimal d \<Rightarrow> Inr v | PInt n \<Rightarrow> Inr (PDecimal (of_int n))
     | _ \<Rightarrow> convert lax TDecimal v)"
| "check_type lax TDatetime v =
    (case v of PDatetime t \<Rightarrow> Inr v | _ \<Rightarrow> convert lax TDatetime v)"
| "check_type lax TAny v = Inr v"
| "check_type lax (TEnum E) v = (if v \<in> set (members E) then Inr v else Inl enum)"
| "check_type lax (TOptional t) v = (if v = PNone then Inr PNone else check_type lax t v)"
| "check_type lax (TList t) v =
    (case v of
       PList xs \<Rightarrow>
         (case all_right (map (check_type lax t) xs) of
            Inl e \<Rightarrow> Inl e | Inr ys \<Rightarrow> Inr (PList ys))
     | _ \<Rightarrow> Inl (type_error (TList t)))"
| "check_type lax (TDict k t) v =
    (case v of
       PDict kvs \<Rightarrow>
         (case all_right (map (check_type lax k) (map fst kvs)) of
            Inl e \<Rightarrow> Inl e
          | Inr ks \<Rightarrow>
              (case all_right (map (check_type lax t) (map snd kvs)) of
                 Inl e \<Rightarrow> Inl e | Inr vs \<Rightarrow> Inr (PDict (zip ks vs))))
     | _ \<Rightarrow> Inl (type_error (TDict k t)))"

text \<open>The constraints of a \<^verbatim>\<open>Field\<close>: \<^verbatim>\<open>ge\<close> and \<^verbatim>\<open>le\<close> on numbers, \<^verbatim>\<open>max_length\<close> on strings.\<close>

definition bound_errors :: "Field_info \<Rightarrow> rat \<Rightarrow> error_type list" where
  "bound_errors fi x =
    (case ge fi of Some b \<Rightarrow> if x < b then [greater_than_equal b] else [] | None \<Rightarrow> []) @
    (case le fi of Some b \<Rightarrow> if b < x then [less_than_equal b] else [] | None \<Rightarrow> [])"

definition length_errors :: "Field_info \<Rightarrow> py_str \<Rightarrow> error_type list" where
  "length_errors fi s =
    (case max_length fi of
       Some n \<Rightarrow> if n < length s then [string_too_long n] else []
     | None \<Rightarrow> [])"

fun check_constraints :: "Field_info \<Rightarrow> py_val \<Rightarrow> error_type list" where
  "check_constraints fi (PStr s) = length_errors fi s"
| "check_constraints fi (PInt n) = bound_errors fi (of_int n)"
| "check_constraints fi (PDecimal d) = bound_errors fi d"
| "check_constraints fi v = []"

text \<open>
  One field: an omitted field takes its default (which is not validated) or is reported
  missing; a given value is checked against the annotation, then against the
  constraints. \<open>now\<close> is what \<^verbatim>\<open>datetime.utcnow\<close> returns.
\<close>

definition validate_field :: "conversion \<Rightarrow> int \<Rightarrow> py_type \<Rightarrow> Field_info \<Rightarrow> py_val option \<Rightarrow> error_type list + py_val" where
  "validate_field lax now ty fi given =
    (case given of
       None \<Rightarrow>
         (case default' fi of
            PydanticUndefined \<Rightarrow> Inl [missing]
          | Default d \<Rightarrow> Inr d
          | DefaultFactory_utcnow \<Rightarrow> Inr (PDatetime now))
     | Some v \<Rightarrow>
         (case check_type lax ty v of
            Inl e \<Rightarrow> Inl [e]
          | Inr v' \<Rightarrow> (if check_constraints fi v' = [] then Inr v' else Inl (check_constraints fi v'))))"

definition field_errors :: "conversion \<Rightarrow> int \<Rightarrow> kwargs \<Rightarrow> field_decl \<Rightarrow> (string \<times> error_type) list" where
  "field_errors lax now kw d =
    (case d of (n, ty, fi) \<Rightarrow>
      (case validate_field lax now ty fi (kw n) of Inl es \<Rightarrow> map (Pair n) es | Inr v \<Rightarrow> []))"

definition field_value :: "conversion \<Rightarrow> int \<Rightarrow> kwargs \<Rightarrow> field_decl \<Rightarrow> row" where
  "field_value lax now kw d =
    (case d of (n, ty, fi) \<Rightarrow>
      (case validate_field lax now ty fi (kw n) of Inl es \<Rightarrow> [] | Inr v \<Rightarrow> [(n, v)]))"

definition validation_errors :: "conversion \<Rightarrow> model_class \<Rightarrow> int \<Rightarrow> kwargs \<Rightarrow> (string \<times> error_type) list" where
  "validation_errors lax cls now kw = concat (map (field_errors lax now kw) (model_fields cls))"

definition validated_data :: "conversion \<Rightarrow> model_class \<Rightarrow> int \<Rightarrow> kwargs \<Rightarrow> row" where
  "validated_data lax cls now kw = concat (map (field_value lax now kw) (model_fields cls))"

text \<open>
  \<^verbatim>\<open>cls.model_validate(kw)\<close>: the declared fields are validated in order, keys that name no
  field are ignored, all errors are collected, and the result is the validated data in
  field order.
\<close>

definition model_validate :: "conversion \<Rightarrow> model_class \<Rightarrow> int \<Rightarrow> kwargs \<Rightarrow> error + row" where
  "model_validate lax cls now kw =
    (if validation_errors lax cls now kw = [] then Inr (validated_data lax cls now kw)
     else Inl (ValidationError (validation_errors lax cls now kw)))"

subsection \<open>Construction\<close>

text \<open>
  The constructor of a \<^verbatim>\<open>table=True\<close> class runs no validation. A field that is given
  keeps the value as it is given, whatever its type and whatever the constraints of the
  field; a field that is omitted takes its default, and stays unset when it has none.
  Keys that name no field are ignored, and no error is raised.
\<close>

definition field_init :: "int \<Rightarrow> kwargs \<Rightarrow> field_decl \<Rightarrow> row" where
  "field_init now kw d =
    (case d of (n, ty, fi) \<Rightarrow>
      (case kw n of
         Some v \<Rightarrow> [(n, v)]
       | None \<Rightarrow>
           (case default' fi of
              PydanticUndefined \<Rightarrow> []
            | Default v \<Rightarrow> [(n, v)]
            | DefaultFactory_utcnow \<Rightarrow> [(n, PDatetime now)])))"

definition table_construct :: "model_class \<Rightarrow> int \<Rightarrow> kwargs \<Rightarrow> row" where
  "table_construct cls now kw = concat (map (field_init now kw) (model_fields cls))"

text \<open>
  \<^verbatim>\<open>cls(**kw)\<close>: a \<^verbatim>\<open>table=False\<close> class validates its input, a \<^verbatim>\<open>table=True\<close> class does
  not. The eight entities are \<^verbatim>\<open>table=True\<close>, the nine shapes \<^verbatim>\<open>table=False\<close>.
\<close>

definition construct :: "conversion \<Rightarrow> model_class \<Rightarrow> int \<Rightarrow> kwargs \<Rightarrow> error + row" where
  "construct lax cls now kw =
    (case tablename cls of
       None \<Rightarrow> model_validate lax cls now kw
     | Some t \<Rightarrow> Inr (table_construct cls now kw))"

text \<open>
  An entity made from the validated data of a schema object,
  \<^verbatim>\<open>cls.model_validate(schema(**kw).model_dump())\<close>: the input is validated by the schema
  class, and the validated data are the input of the entity class, whose declarations
  supply every field the schema does not have.
\<close>

definition create_from :: "conversion \<Rightarrow> model_class \<Rightarrow> model_class \<Rightarrow> int \<Rightarrow> kwargs \<Rightarrow> error + row" where
  "create_from lax schema cls now kw =
    (case model_validate lax schema now kw of
       Inl e \<Rightarrow> Inl e
     | Inr data \<Rightarrow> model_validate lax cls now (map_of data))"

subsection \<open>Update application\<close>

text \<open>
  Modelled from the spec: the application of an Update shape to a stored record, which
  the module declares the shapes for and does not contain. Section 3: "Every Update
  shape makes every field optional, semantics = partial patch: absent field means leave
  unchanged", and a \<^verbatim>\<open>None\<close> for a field that is not nullable in the entity "means
  unchanged". The input is validated by the Update shape; every field of the record for
  which the validated shape holds a value other than \<^verbatim>\<open>None\<close> takes that value.
\<close>

definition patch_field :: "row \<Rightarrow> string \<times> py_val \<Rightarrow> string \<times> py_val" where
  "patch_field u nv =
    (case nv of (n, v) \<Rightarrow>
      (case map_of u n of
         Some x \<Rightarrow> if x = PNone then (n, v) else (n, x)
       | None \<Rightarrow> (n, v)))"

text \<open>
  Modelled from the spec: the update itself, section 3's partial patch of a stored record
  by a validated Update shape.
\<close>

definition apply_update :: "conversion \<Rightarrow> model_class \<Rightarrow> int \<Rightarrow> row \<Rightarrow> kwargs \<Rightarrow> error + row" where
  "apply_update lax schema now r kw =
    (case model_validate lax schema now kw of
       Inl e \<Rightarrow> Inl e
     | Inr u \<Rightarrow> Inr (map (patch_field u) r))"

subsection \<open>Tables\<close>

text \<open>
  Modelled from the spec: the persistence collaborator of section 6, which is not part
  of the module. It keeps one list of records per table name, assigns the integer
  surrogate identifier of the declared primary key, and enforces the foreign keys the
  module declares: section 4.1, "Reject when a required relationship reference does not
  resolve to an existing parent record; fails with a ReferenceError". A foreign key is
  declared as \<^verbatim>\<open>"table.column"\<close>; a reference that is \<^verbatim>\<open>None\<close> refers to nothing.
  Every definition of this subsection belongs to that model; the declarations it reads
  are the module's.
\<close>

type_synonym database = "string \<Rightarrow> row list"

definition fk_table :: "string \<Rightarrow> string" where
  "fk_table ref = takeWhile (\<lambda>c. c \<noteq> CHR ''.'') ref"

definition fk_column :: "string \<Rightarrow> string" where
  "fk_column ref = drop 1 (dropWhile (\<lambda>c. c \<noteq> CHR ''.'') ref)"

definition resolves :: "database \<Rightarrow> string \<Rightarrow> py_val \<Rightarrow> bool" where
  "resolves db ref v = list_ex (\<lambda>p. map_of p (fk_column ref) = Some v) (db (fk_table ref))"

definition reference_error :: "database \<Rightarrow> row \<Rightarrow> field_decl \<Rightarrow> string list" where
  "reference_error db r d =
    (case d of (n, ty, fi) \<Rightarrow>
      (case foreign_key fi of
         None \<Rightarrow> []
       | Some ref \<Rightarrow>
           (case map_of r n of
              None \<Rightarrow> []
            | Some v \<Rightarrow> if v = PNone \<or> resolves db ref v then [] else [n])))"

definition reference_errors :: "database \<Rightarrow> model_class \<Rightarrow> row \<Rightarrow> string list" where
  "reference_errors db cls r = concat (map (reference_error db r) (model_fields cls))"

definition primary_keys :: "model_class \<Rightarrow> string list" where
  "primary_keys cls = map fst (filter (\<lambda>d. primary_key (snd (snd d))) (model_fields cls))"

definition key_values :: "row list \<Rightarrow> string \<Rightarrow> int list" where
  "key_values rows k =
    concat (map (\<lambda>r. case map_of r k of Some (PInt i) \<Rightarrow> [i] | _ \<Rightarrow> []) rows)"

definition fresh_id :: "row list \<Rightarrow> string \<Rightarrow> int" where
  "fresh_id rows k = 1 + fold max (key_values rows k) 0"

definition assign_key :: "row list \<Rightarrow> string \<Rightarrow> row \<Rightarrow> error + row" where
  "assign_key rows k r =
    (case map_of r k of
       None \<Rightarrow> Inr r
     | Some v \<Rightarrow>
         if v = PNone
         then Inr (map (\<lambda>(n, x). if n = k then (n, PInt (fresh_id rows k)) else (n, x)) r)
         else if list_ex (\<lambda>p. map_of p k = Some v) rows then Inl (IntegrityError k)
         else Inr r)"

text \<open>
  Modelled from the spec: the insertion of a record, which rejects a reference without a
  parent (section 4.1) before it assigns the identifier (section 6).
\<close>

definition add :: "database \<Rightarrow> model_class \<Rightarrow> row \<Rightarrow> error + database \<times> row" where
  "add db cls r =
    (case tablename cls of
       None \<Rightarrow> Inl UnmappedInstanceError
     | Some t \<Rightarrow>
         (case reference_errors db cls r of
            f # fs \<Rightarrow> Inl (ReferenceError f)
          | [] \<Rightarrow>
              (case (case primary_keys cls of [] \<Rightarrow> Inr r | k # ks \<Rightarrow> assign_key (db t) k r) of
                 Inl e \<Rightarrow> Inl e
               | Inr r' \<Rightarrow> Inr (db(t := db t @ [r']), r'))))"

text \<open>
  Modelled from the spec: the creation of an entity, validation on write (section 4.1)
  followed by the insertion.
\<close>

definition create :: "conversion \<Rightarrow> database \<Rightarrow> model_class \<Rightarrow> int \<Rightarrow> kwargs \<Rightarrow> error + database \<times> row" where
  "create lax db cls now kw =
    (case model_validate lax cls now kw of
       Inl e \<Rightarrow> Inl e
     | Inr r \<Rightarrow> add db cls r)"

subsection \<open>The shapes of an entity\<close>

text \<open>
  The table classes are the entities; the shapes of an entity are the classes named
  after it with the suffix \<^verbatim>\<open>Create\<close> or \<^verbatim>\<open>Update\<close>.
\<close>

definition entity_names :: "string list" where
  "entity_names = map fst (filter (\<lambda>(n, c). tablename c \<noteq> None) module_classes)"

definition create_shape :: "string \<Rightarrow> model_class option" where
  "create_shape e = map_of module_classes (e @ ''Create'')"

definition update_shape :: "string \<Rightarrow> model_class option" where
  "update_shape e = map_of module_classes (e @ ''Update'')"

definition field_names :: "model_class \<Rightarrow> string list" where
  "field_names cls = map fst (model_fields cls)"

definition required_fields :: "model_class \<Rightarrow> string list" where
  "required_fields cls =
    map fst (filter (\<lambda>d. default' (snd (snd d)) = PydanticUndefined) (model_fields cls))"

definition same_constraints :: "Field_info \<Rightarrow> Field_info \<Rightarrow> bool" where
  "same_constraints a b \<longleftrightarrow> max_length a = max_length b \<and> ge a = ge b \<and> le a = le b"

text \<open>
  A field of a Create shape mirrors the entity's field of that name: same annotation,
  same default, same constraints. A field of an Update shape is the entity's field made
  optional: the annotation wrapped in \<^verbatim>\<open>Optional\<close>, default \<^verbatim>\<open>None\<close>, same constraints.
\<close>

definition optional :: "py_type \<Rightarrow> py_type" where
  "optional t = (case t of TOptional t' \<Rightarrow> t | _ \<Rightarrow> TOptional t)"

definition mirrors :: "model_class \<Rightarrow> field_decl \<Rightarrow> bool" where
  "mirrors entity d =
    (case d of (n, ty, fi) \<Rightarrow>
      (case map_of (model_fields entity) n of
         None \<Rightarrow> False
       | Some (ty', fi') \<Rightarrow> ty = ty' \<and> default' fi = default' fi' \<and> same_constraints fi fi'))"

definition makes_optional :: "model_class \<Rightarrow> field_decl \<Rightarrow> bool" where
  "makes_optional entity d =
    (case d of (n, ty, fi) \<Rightarrow>
      (case map_of (model_fields entity) n of
         None \<Rightarrow> False
       | Some (ty', fi') \<Rightarrow>
           ty = optional ty' \<and> default' fi = Default PNone \<and> same_constraints fi fi'))"

subsection \<open>The fields the properties are about\<close>

text \<open>The nine percentage fields of the entities.\<close>

definition bounded_decimal_fields :: "(model_class \<times> string) list" where
  "bounded_decimal_fields =
    [(Glyph, ''power_level''),
     (TransformationProtocol, ''success_rate''),
     (Mission, ''progress_percentage''),
     (QuantumShield, ''integrity_percentage''),
     (QuantumShield, ''energy_level''),
     (EmotionalResonance, ''resonance_level''),
     (EmotionalResonance, ''harmony_index''),
     (EmotionalResonance, ''sync_stability''),
     (HealingModule, ''energy_efficiency'')]"

text \<open>The five enum-valued fields of the entities, each with its enum class.\<close>

definition enum_fields :: "(model_class \<times> string \<times> enum_class) list" where
  "enum_fields =
    [(Glyph, ''category'', GlyphCategory),
     (Mission, ''status'', MissionStatus),
     (Mission, ''priority'', MissionPriority),
     (EmotionalResonance, ''current_state'', EmotionalState),
     (QuantumShield, ''status'', ShieldStatus)]"

text \<open>
  The fields of a class that carry \<^verbatim>\<open>max_length\<close> are annotated \<^verbatim>\<open>str\<close> or
  \<^verbatim>\<open>Optional[str]\<close>.
\<close>

definition length_bounds_on_str :: "model_class \<Rightarrow> bool" where
  "length_bounds_on_str cls =
    list_all (\<lambda>(f, ty, fi). max_length fi = None \<or> ty = TStr \<or> ty = TOptional TStr)
      (model_fields cls)"

text \<open>
  A default that would pass the validation of its own field. (Defaults are not
  validated when they are applied; the defaults of the schema classes would pass.)
\<close>

definition default_valid :: "conversion \<Rightarrow> field_decl \<Rightarrow> bool" where
  "default_valid lax d =
    (case d of (f, ty, fi) \<Rightarrow>
      (case default' fi of
         PydanticUndefined \<Rightarrow> True
       | Default v \<Rightarrow> check_type lax ty v = Inr v \<and> check_constraints fi v = []
       | DefaultFactory_utcnow \<Rightarrow> ty = TDatetime))"

text \<open>The three required references, each with the table of the parent record.\<close>

definition required_references :: "(model_class \<times> string \<times> string) list" where
  "required_references =
    [(TransformationStep, ''protocol_id'', ''transformation_protocols''),
     (MissionLogEntry, ''mission_id'', ''missions''),
     (HealingModule, ''shield_id'', ''quantum_shields'')]"

section \<open>Facts about validation\<close>

lemma model_validate_Inr_iff:
  "model_validate lax cls now kw = Inr r \<longleftrightarrow>
     validation_errors lax cls now kw = [] \<and> r = validated_data lax cls now kw"
  by (auto simp: model_validate_def)

lemma validation_errors_iff:
  "(f, e) \<in> set (validation_errors lax cls now kw) \<longleftrightarrow>
     (\<exists>ty fi es. (f, ty, fi) \<in> set (model_fields cls) \<and>
        validate_field lax now ty fi (kw f) = Inl es \<and> e \<in> set es)"
  by (force simp: validation_errors_def field_errors_def split: sum.splits prod.splits)

lemma validate_field_Inl_nonempty:
  "validate_field lax now ty fi x = Inl es \<Longrightarrow> es \<noteq> []"
  by (auto simp: validate_field_def split: option.splits default_spec.splits sum.splits if_splits)

lemma field_errors_Nil_iff:
  "field_errors lax now kw (f, ty, fi) = [] \<longleftrightarrow> (\<exists>v. validate_field lax now ty fi (kw f) = Inr v)"
  by (auto simp: field_errors_def split: sum.splits dest: validate_field_Inl_nonempty)

lemma validation_errors_Nil_iff:
  "validation_errors lax cls now kw = [] \<longleftrightarrow>
     (\<forall>f ty fi. (f, ty, fi) \<in> set (model_fields cls) \<longrightarrow>
        (\<exists>v. validate_field lax now ty fi (kw f) = Inr v))"
proof -
  have "validation_errors lax cls now kw = [] \<longleftrightarrow>
      (\<forall>d \<in> set (model_fields cls). field_errors lax now kw d = [])"
    by (simp add: validation_errors_def)
  also have "\<dots> \<longleftrightarrow> (\<forall>f ty fi. (f, ty, fi) \<in> set (model_fields cls) \<longrightarrow>
      field_errors lax now kw (f, ty, fi) = [])"
    by auto
  finally show ?thesis
    by (simp only: field_errors_Nil_iff)
qed

lemma field_value_simps:
  "field_value lax now kw (n, ty, fi) =
     (case validate_field lax now ty fi (kw n) of Inl es \<Rightarrow> [] | Inr v \<Rightarrow> [(n, v)])"
  by (simp add: field_value_def)

lemma map_of_field_values_None:
  "f \<notin> fst ` set ds \<Longrightarrow> map_of (concat (map (field_value lax now kw) ds)) f = None"
  by (induction ds) (auto simp: field_value_simps map_add_def split: sum.splits)

lemma map_of_field_values:
  assumes "distinct (map fst ds)" "(f, ty, fi) \<in> set ds"
  shows "map_of (concat (map (field_value lax now kw) ds)) f =
     (case validate_field lax now ty fi (kw f) of Inl es \<Rightarrow> None | Inr v \<Rightarrow> Some v)"
  using assms
proof (induction ds)
  case Nil
  then show ?case by simp
next
  case (Cons d ds)
  obtain n ty' fi' where d: "d = (n, ty', fi')" by (cases d) auto
  show ?case
  proof (cases "n = f")
    case True
    with Cons.prems d have eq: "ty' = ty" "fi' = fi" by (force simp: image_iff)+
    have "f \<notin> fst ` set ds" using Cons.prems True d by simp
    then have "map_of (concat (map (field_value lax now kw) ds)) f = None"
      by (rule map_of_field_values_None)
    then show ?thesis using True d eq
      by (simp add: field_value_simps map_add_def split: sum.splits)
  next
    case False
    then have "(f, ty, fi) \<in> set ds" using Cons.prems d by auto
    moreover have "distinct (map fst ds)" using Cons.prems by simp
    ultimately have "map_of (concat (map (field_value lax now kw) ds)) f =
     (case validate_field lax now ty fi (kw f) of Inl es \<Rightarrow> None | Inr v \<Rightarrow> Some v)"
      by (rule Cons.IH[rotated])
    then show ?thesis using False d
      by (simp add: field_value_simps map_add_def split: sum.splits)
  qed
qed

lemma map_of_validated_data:
  assumes "distinct (map fst (model_fields cls))" "(f, ty, fi) \<in> set (model_fields cls)"
    and "validate_field lax now ty fi (kw f) = Inr v"
  shows "map_of (validated_data lax cls now kw) f = Some v"
  using map_of_field_values[OF assms(1,2), where lax = lax and now = now and kw = kw] assms(3)
  by (simp add: validated_data_def)

lemma map_of_validated_data_None:
  "f \<notin> set (field_names cls) \<Longrightarrow> map_of (validated_data lax cls now kw) f = None"
  by (simp add: validated_data_def field_names_def map_of_field_values_None)

text \<open>
  Setting one field: the field fails with its own errors whatever the other fields are,
  and the whole validation succeeds with the field's value stored when the field passes
  and no other field is in error.
\<close>

lemma set_field_fails:
  assumes "(f, ty, fi) \<in> set (model_fields cls)"
    and "validate_field lax now ty fi x = Inl es" and "e \<in> set es"
  shows "\<exists>errs. model_validate lax cls now (kw(f := x)) = Inl (ValidationError errs) \<and>
     (f, e) \<in> set errs"
proof -
  have "(f, e) \<in> set (validation_errors lax cls now (kw(f := x)))"
    using assms by (auto simp: validation_errors_iff)
  then show ?thesis
    by (auto simp: model_validate_def)
qed

lemma set_field_succeeds:
  assumes dist: "distinct (map fst (model_fields cls))"
    and decl: "(f, ty, fi) \<in> set (model_fields cls)"
    and ok: "validate_field lax now ty fi x = Inr v'"
    and others: "\<forall>g e. (g, e) \<in> set (validation_errors lax cls now kw) \<longrightarrow> g = f"
  shows "\<exists>r. model_validate lax cls now (kw(f := x)) = Inr r \<and> map_of r f = Some v'"
proof -
  have "\<exists>w. validate_field lax now ty' fi' ((kw(f := x)) g) = Inr w"
    if d: "(g, ty', fi') \<in> set (model_fields cls)" for g ty' fi'
  proof (cases "g = f")
    case True
    with d decl have "(ty', fi') = (ty, fi)"
      using eq_key_imp_eq_value[OF dist] by blast
    with ok True show ?thesis by simp
  next
    case False
    show ?thesis
    proof (cases "validate_field lax now ty' fi' (kw g)")
      case (Inl es)
      then obtain e where "e \<in> set es"
        using validate_field_Inl_nonempty[OF Inl] by (cases es) auto
      with Inl d have "(g, e) \<in> set (validation_errors lax cls now kw)"
        by (auto simp: validation_errors_iff)
      with others False show ?thesis by blast
    next
      case (Inr w)
      with False show ?thesis by simp
    qed
  qed
  then have "validation_errors lax cls now (kw(f := x)) = []"
    unfolding validation_errors_Nil_iff by blast
  moreover have "map_of (validated_data lax cls now (kw(f := x))) f = Some v'"
    using map_of_validated_data[OF dist decl, where lax = lax and now = now and kw = "kw(f := x)" and v = v'] ok by simp
  ultimately show ?thesis
    by (simp add: model_validate_def)
qed

lemma set_two_fields_succeed:
  assumes dist: "distinct (map fst (model_fields cls))"
    and decl1: "(f1, ty1, fi1) \<in> set (model_fields cls)"
    and decl2: "(f2, ty2, fi2) \<in> set (model_fields cls)"
    and ne: "f1 \<noteq> f2"
    and ok1: "validate_field lax now ty1 fi1 x1 = Inr v1"
    and ok2: "validate_field lax now ty2 fi2 x2 = Inr v2"
    and others: "\<forall>g e. (g, e) \<in> set (validation_errors lax cls now kw) \<longrightarrow> g = f1 \<or> g = f2"
  shows "\<exists>r. model_validate lax cls now (kw(f1 := x1, f2 := x2)) = Inr r
     \<and> map_of r f1 = Some v1 \<and> map_of r f2 = Some v2"
proof -
  let ?K = "kw(f1 := x1, f2 := x2)"
  have K1: "?K f1 = x1" and K2: "?K f2 = x2"
    using ne by simp_all
  have "\<exists>w. validate_field lax now ty' fi' (?K g) = Inr w"
    if d: "(g, ty', fi') \<in> set (model_fields cls)" for g ty' fi'
  proof -
    consider "g = f1" | "g = f2" | "g \<noteq> f1" "g \<noteq> f2"
      by blast
    then show ?thesis
    proof cases
      case 1
      with d decl1 have "(ty', fi') = (ty1, fi1)"
        using eq_key_imp_eq_value[OF dist] by blast
      with ok1 1 K1 show ?thesis by simp
    next
      case 2
      with d decl2 have "(ty', fi') = (ty2, fi2)"
        using eq_key_imp_eq_value[OF dist] by blast
      with ok2 2 K2 show ?thesis by simp
    next
      case 3
      show ?thesis
      proof (cases "validate_field lax now ty' fi' (kw g)")
        case (Inl es)
        then obtain e where "e \<in> set es"
          using validate_field_Inl_nonempty[OF Inl] by (cases es) auto
        with Inl d have "(g, e) \<in> set (validation_errors lax cls now kw)"
          by (auto simp: validation_errors_iff)
        with others 3 show ?thesis by blast
      next
        case (Inr w)
        with 3 show ?thesis by simp
      qed
    qed
  qed
  then have "validation_errors lax cls now ?K = []"
    unfolding validation_errors_Nil_iff by blast
  moreover have "map_of (validated_data lax cls now ?K) f1 = Some v1"
    using map_of_validated_data[OF dist decl1, where lax = lax and now = now and kw = ?K
        and v = v1] ok1 K1 by simp
  moreover have "map_of (validated_data lax cls now ?K) f2 = Some v2"
    using map_of_validated_data[OF dist decl2, where lax = lax and now = now and kw = ?K
        and v = v2] ok2 K2 by simp
  ultimately show ?thesis
    by (simp add: model_validate_def)
qed

lemma members_are_strings: "v \<in> set (members E) \<Longrightarrow> \<exists>s. v = PStr s"
  by (auto simp: members_def)

lemma validate_enum:
  assumes "max_length fi = None"
  shows "validate_field lax now (TEnum E) fi (Some v) =
    (if v \<in> set (members E) then Inr v else Inl [enum])"
proof (cases "v \<in> set (members E)")
  case True
  then obtain s where "v = PStr s" using members_are_strings by blast
  with True assms show ?thesis
    by (simp add: validate_field_def length_errors_def)
next
  case False
  then show ?thesis by (simp add: validate_field_def)
qed

subsection \<open>The declarations\<close>

lemma distinct_Glyph: "distinct (map fst (model_fields Glyph))"
  by code_simp

lemma distinct_TransformationProtocol: "distinct (map fst (model_fields TransformationProtocol))"
  by code_simp

lemma distinct_TransformationStep: "distinct (map fst (model_fields TransformationStep))"
  by code_simp

lemma distinct_Mission: "distinct (map fst (model_fields Mission))"
  by code_simp

lemma distinct_MissionLogEntry: "distinct (map fst (model_fields MissionLogEntry))"
  by code_simp

lemma distinct_EmotionalResonance: "distinct (map fst (model_fields EmotionalResonance))"
  by code_simp

lemma distinct_QuantumShield: "distinct (map fst (model_fields QuantumShield))"
  by code_simp

lemma distinct_HealingModule: "distinct (map fst (model_fields HealingModule))"
  by code_simp

lemmas distinct_entities = distinct_Glyph distinct_TransformationProtocol
  distinct_TransformationStep distinct_Mission distinct_MissionLogEntry
  distinct_EmotionalResonance distinct_QuantumShield distinct_HealingModule

lemmas validate_unfold = model_validate_def validation_errors_def validated_data_def
  field_errors_def field_value_def validate_field_def bound_errors_def length_errors_def
  members_def member_def str_def Field'_def convert_def no_conversion_def

subsection \<open>Conversions yield values of the annotated type\<close>

lemma convert_of_type: "convert lax t v = Inr v' \<Longrightarrow> of_type t v'"
  by (auto simp: convert_def split: option.splits if_splits)

lemma of_type_iff:
  "of_type TInt v \<longleftrightarrow> (\<exists>n. v = PInt n)"
  "of_type TStr v \<longleftrightarrow> (\<exists>s. v = PStr s)"
  "of_type TBool v \<longleftrightarrow> (\<exists>b. v = PBool b)"
  "of_type TDecimal v \<longleftrightarrow> (\<exists>d. v = PDecimal d)"
  "of_type TDatetime v \<longleftrightarrow> (\<exists>t. v = PDatetime t)"
  by (cases v; simp)+

lemma check_type_TInt: "check_type lax TInt v = Inr v' \<Longrightarrow> \<exists>n. v' = PInt n"
  by (cases v) (auto dest: convert_of_type simp: of_type_iff)

subsection \<open>The constructor of a table class\<close>

lemma field_init_simps:
  "field_init now kw (n, ty, fi) =
     (case kw n of
        Some v \<Rightarrow> [(n, v)]
      | None \<Rightarrow>
          (case default' fi of
             PydanticUndefined \<Rightarrow> []
           | Default v \<Rightarrow> [(n, v)]
           | DefaultFactory_utcnow \<Rightarrow> [(n, PDatetime now)]))"
  by (simp add: field_init_def)

lemma map_of_field_inits_None:
  "f \<notin> fst ` set ds \<Longrightarrow> map_of (concat (map (field_init now kw) ds)) f = None"
  by (induction ds)
    (auto simp: field_init_simps map_add_def split: option.splits default_spec.splits)

lemma map_of_field_inits_given:
  assumes "(f, ty, fi) \<in> set ds" "kw f = Some v"
  shows "map_of (concat (map (field_init now kw) ds)) f = Some v"
  using assms
proof (induction ds)
  case Nil
  then show ?case by simp
next
  case (Cons d ds)
  obtain n ty' fi' where d: "d = (n, ty', fi')" by (cases d) auto
  show ?case
  proof (cases "n = f")
    case True
    with Cons.prems(2) d show ?thesis
      by (simp add: field_init_simps)
  next
    case False
    with Cons.prems d have "(f, ty, fi) \<in> set ds"
      by auto
    then have "map_of (concat (map (field_init now kw) ds)) f = Some v"
      using Cons.prems(2) by (rule Cons.IH)
    with False d show ?thesis
      by (simp add: field_init_simps map_add_def
          split: option.splits default_spec.splits)
  qed
qed

text \<open>
  Constructing a table class never fails, and a field that is given holds what was
  given.
\<close>

lemma construct_table:
  "tablename cls \<noteq> None \<Longrightarrow> construct lax cls now kw = Inr (table_construct cls now kw)"
  by (auto simp: construct_def)

lemma table_construct_given:
  assumes "(f, ty, fi) \<in> set (model_fields cls)" "kw f = Some v"
  shows "map_of (table_construct cls now kw) f = Some v"
  unfolding table_construct_def using assms by (rule map_of_field_inits_given)

lemma construct_table_given:
  assumes "tablename cls \<noteq> None" and "(f, ty, fi) \<in> set (model_fields cls)"
  shows "\<exists>r. construct lax cls now (kw(f \<mapsto> v)) = Inr r \<and> map_of r f = Some v"
proof -
  have "map_of (table_construct cls now (kw(f \<mapsto> v))) f = Some v"
    by (rule table_construct_given[OF assms(2)]) simp
  with assms(1) show ?thesis
    by (simp add: construct_table)
qed

lemma construct_schema:
  "tablename cls = None \<Longrightarrow> construct lax cls now kw = model_validate lax cls now kw"
  by (simp add: construct_def)

lemma distinct_GlyphCreate: "distinct (map fst (model_fields GlyphCreate))"
  by code_simp

lemma distinct_GlyphUpdate: "distinct (map fst (model_fields GlyphUpdate))"
  by code_simp

lemma distinct_TransformationProtocolCreate:
  "distinct (map fst (model_fields TransformationProtocolCreate))"
  by code_simp

lemma distinct_MissionCreate: "distinct (map fst (model_fields MissionCreate))"
  by code_simp

lemma distinct_MissionUpdate: "distinct (map fst (model_fields MissionUpdate))"
  by code_simp

lemma distinct_EmotionalResonanceCreate:
  "distinct (map fst (model_fields EmotionalResonanceCreate))"
  by code_simp

lemma distinct_QuantumShieldCreate: "distinct (map fst (model_fields QuantumShieldCreate))"
  by code_simp

lemma distinct_QuantumShieldUpdate: "distinct (map fst (model_fields QuantumShieldUpdate))"
  by code_simp

lemma distinct_HealingModuleCreate: "distinct (map fst (model_fields HealingModuleCreate))"
  by code_simp

lemmas distinct_schemas = distinct_GlyphCreate distinct_GlyphUpdate
  distinct_TransformationProtocolCreate distinct_MissionCreate distinct_MissionUpdate
  distinct_EmotionalResonanceCreate distinct_QuantumShieldCreate distinct_QuantumShieldUpdate
  distinct_HealingModuleCreate

lemma module_classes_distinct:
  assumes "(name, cls) \<in> set module_classes"
  shows "distinct (map fst (model_fields cls))"
proof -
  have "\<forall>(name, cls) \<in> set module_classes. distinct (map fst (model_fields cls))"
    unfolding module_classes_def list.set ball_simps prod.case
    using distinct_entities distinct_schemas by blast
  with assms show ?thesis by blast
qed

lemma schema_tablename:
  "tablename GlyphCreate = None" "tablename GlyphUpdate = None"
  "tablename TransformationProtocolCreate = None" "tablename MissionCreate = None"
  "tablename MissionUpdate = None" "tablename EmotionalResonanceCreate = None"
  "tablename QuantumShieldCreate = None" "tablename QuantumShieldUpdate = None"
  "tablename HealingModuleCreate = None"
  by (simp_all add: GlyphCreate_def GlyphUpdate_def TransformationProtocolCreate_def
      MissionCreate_def MissionUpdate_def EmotionalResonanceCreate_def QuantumShieldCreate_def
      QuantumShieldUpdate_def HealingModuleCreate_def)

lemma entity_tablename:
  "tablename Glyph = Some ''glyphs''"
  "tablename TransformationProtocol = Some ''transformation_protocols''"
  "tablename TransformationStep = Some ''transformation_steps''"
  "tablename Mission = Some ''missions''"
  "tablename MissionLogEntry = Some ''mission_log_entries''"
  "tablename EmotionalResonance = Some ''emotional_resonances''"
  "tablename QuantumShield = Some ''quantum_shields''"
  "tablename HealingModule = Some ''healing_modules''"
  by (simp_all add: Glyph_def TransformationProtocol_def TransformationStep_def Mission_def
      MissionLogEntry_def EmotionalResonance_def QuantumShield_def HealingModule_def)

subsection \<open>Validated data pass validation again\<close>

lemma all_right_map_iff:
  "all_right (map f xs) = Inr ys \<longleftrightarrow> list_all2 (\<lambda>x y. f x = Inr y) xs ys"
proof (induction xs arbitrary: ys)
  case Nil
  then show ?case by auto
next
  case (Cons x xs)
  show ?case
  proof (cases "f x")
    case (Inl e)
    then show ?thesis by (auto simp: list_all2_Cons1)
  next
    case (Inr y)
    then show ?thesis
      using Cons.IH by (cases "all_right (map f xs)") (auto simp: list_all2_Cons1)
  qed
qed

lemma all_right_map_again:
  assumes "all_right (map f xs) = Inr ys"
    and "\<And>x y. f x = Inr y \<Longrightarrow> f y = Inr y"
  shows "all_right (map f ys) = Inr ys"
proof -
  from assms(1) have "list_all2 (\<lambda>x y. f x = Inr y) xs ys"
    by (simp add: all_right_map_iff)
  then have "list_all2 (\<lambda>y y'. f y = Inr y') ys ys"
    by (induction rule: list_all2_induct) (auto intro: assms(2))
  then show ?thesis
    by (simp add: all_right_map_iff)
qed

lemma all_right_length: "all_right (map f xs) = Inr ys \<Longrightarrow> length ys = length xs"
  by (simp add: all_right_map_iff list_all2_lengthD)

lemma check_type_again: "check_type lax t v = Inr v' \<Longrightarrow> check_type lax t v' = Inr v'"
proof (induction t arbitrary: v v')
  case (TEnum E)
  then show ?case by (auto split: if_splits)
next
  case (TOptional t)
  then show ?case by (auto split: if_splits)
next
  case (TList t)
  from TList.prems obtain xs ys where v: "v = PList xs" "v' = PList ys"
    and ys: "all_right (map (check_type lax t) xs) = Inr ys"
    by (auto split: py_val.splits sum.splits)
  have "all_right (map (check_type lax t) ys) = Inr ys"
    by (rule all_right_map_again[OF ys]) (rule TList.IH)
  with v show ?case by simp
next
  case (TDict k t)
  from TDict.prems obtain kvs ks vs where v: "v = PDict kvs" "v' = PDict (zip ks vs)"
    and ks: "all_right (map (check_type lax k) (map fst kvs)) = Inr ks"
    and vs: "all_right (map (check_type lax t) (map snd kvs)) = Inr vs"
    by (auto split: py_val.splits sum.splits)
  have len: "length ks = length vs"
    using all_right_length[OF ks] all_right_length[OF vs] by simp
  have "all_right (map (check_type lax k) ks) = Inr ks"
    by (rule all_right_map_again[OF ks]) (rule TDict.IH(1))
  moreover have "all_right (map (check_type lax t) vs) = Inr vs"
    by (rule all_right_map_again[OF vs]) (rule TDict.IH(2))
  ultimately show ?case
    using v len by simp
qed (auto split: py_val.splits dest: convert_of_type simp: of_type_iff)

lemma check_constraints_same:
  "same_constraints a b \<Longrightarrow> check_constraints a v = check_constraints b v"
  by (cases v) (simp_all add: same_constraints_def bound_errors_def length_errors_def)

lemma validate_field_again:
  assumes "validate_field lax now ty fi x = Inr v" and "default_valid lax (f, ty, fi)"
    and "same_constraints fi fi'"
  shows "validate_field lax now ty fi' (Some v) = Inr v"
proof (cases x)
  case None
  with assms(1,2) have "check_type lax ty v = Inr v \<and> check_constraints fi v = []"
    by (auto simp: validate_field_def default_valid_def split: default_spec.splits)
  then show ?thesis
    using check_constraints_same[OF assms(3), of v] by (simp add: validate_field_def)
next
  case (Some u)
  with assms(1) have "check_type lax ty u = Inr v" "check_constraints fi v = []"
    by (auto simp: validate_field_def split: sum.splits if_splits)
  then show ?thesis
    using check_type_again[where lax = lax and t = ty and v = u and v' = v] check_constraints_same[OF assms(3), of v]
    by (simp add: validate_field_def)
qed

subsection \<open>Entities made from schema objects\<close>

lemma create_from_Inr_iff:
  "create_from lax schema cls now kw = Inr m \<longleftrightarrow>
     validation_errors lax schema now kw = [] \<and>
     model_validate lax cls now (map_of (validated_data lax schema now kw)) = Inr m"
  by (auto simp: create_from_def model_validate_def split: sum.splits)

lemma create_from_default:
  assumes "distinct (map fst (model_fields cls))"
    and "(f, ty, fi) \<in> set (model_fields cls)" and "default' fi = Default v"
    and "f \<notin> set (field_names schema)"
    and "create_from lax schema cls now kw = Inr m"
  shows "map_of m f = Some v"
proof -
  let ?d = "validated_data lax schema now kw"
  from assms(5) have m: "m = validated_data lax cls now (map_of ?d)"
    by (simp add: create_from_Inr_iff model_validate_Inr_iff)
  have "map_of ?d f = None"
    by (rule map_of_validated_data_None[OF assms(4)])
  with assms(3) have "validate_field lax now ty fi (map_of ?d f) = Inr v"
    by (simp add: validate_field_def)
  with assms(1,2) show ?thesis
    unfolding m by (rule map_of_validated_data)
qed

lemma mirrorsD:
  assumes "list_all (mirrors cls) (model_fields schema)" "distinct (map fst (model_fields cls))"
    and "(f, ty, fi) \<in> set (model_fields schema)" and "(f, ty', fi') \<in> set (model_fields cls)"
  shows "ty = ty' \<and> default' fi = default' fi' \<and> same_constraints fi fi'"
proof -
  from assms(2,4) have "map_of (model_fields cls) f = Some (ty', fi')"
    by simp
  moreover from assms(1,3) have "mirrors cls (f, ty, fi)"
    by (auto simp: list_all_iff)
  ultimately show ?thesis
    by (simp add: mirrors_def)
qed

lemma create_from_total:
  assumes dist_s: "distinct (map fst (model_fields schema))"
    and dist_c: "distinct (map fst (model_fields cls))"
    and mir: "list_all (mirrors cls) (model_fields schema)"
    and dv: "list_all (default_valid lax) (model_fields schema)"
    and req: "set (required_fields cls) \<subseteq> set (field_names schema)"
    and ok: "validation_errors lax schema now kw = []"
  shows "\<exists>m. create_from lax schema cls now kw = Inr m"
proof -
  let ?d = "validated_data lax schema now kw"
  have "\<exists>w. validate_field lax now ty fi (map_of ?d f) = Inr w"
    if decl: "(f, ty, fi) \<in> set (model_fields cls)" for f ty fi
  proof (cases "f \<in> set (field_names schema)")
    case True
    then obtain ty' fi' where s: "(f, ty', fi') \<in> set (model_fields schema)"
      by (auto simp: field_names_def)
    from mirrorsD[OF mir dist_c s decl] have eq: "ty' = ty" and sc: "same_constraints fi' fi"
      by simp_all
    from ok s obtain v where v: "validate_field lax now ty' fi' (kw f) = Inr v"
      unfolding validation_errors_Nil_iff by blast
    have "map_of ?d f = Some v"
      using map_of_validated_data[OF dist_s s, where lax = lax and now = now and kw = kw and v = v] v by simp
    moreover have "default_valid lax (f, ty', fi')"
      using dv s by (auto simp: list_all_iff)
    then have "validate_field lax now ty' fi (Some v) = Inr v"
      by (rule validate_field_again[OF v _ sc])
    ultimately show ?thesis
      using eq by simp
  next
    case False
    then have none: "map_of ?d f = None"
      by (rule map_of_validated_data_None)
    from False req have "f \<notin> set (required_fields cls)"
      by blast
    with decl have "default' fi \<noteq> PydanticUndefined"
      by (force simp: required_fields_def)
    then show ?thesis
      by (cases "default' fi") (simp_all add: none validate_field_def)
  qed
  then have "validation_errors lax cls now (map_of ?d) = []"
    unfolding validation_errors_Nil_iff by blast
  with ok show ?thesis
    by (simp add: create_from_Inr_iff model_validate_def)
qed

subsection \<open>Mission and its shapes\<close>

lemma MissionCreate_mirrors:
  "list_all (mirrors Mission) (model_fields MissionCreate)"
  "required_fields MissionCreate = required_fields Mission"
  by (simp_all add: mirrors_def same_constraints_def required_fields_def
      MissionCreate_def Mission_def Field'_def)

lemma MissionCreate_defaults_valid: "list_all (default_valid lax) (model_fields MissionCreate)"
  by (simp add: default_valid_def MissionCreate_def Field'_def length_errors_def
      member_def members_def MissionPriority_def)

lemma Mission_required: "set (required_fields Mission) \<subseteq> set (field_names MissionCreate)"
  by (simp add: required_fields_def field_names_def Mission_def MissionCreate_def Field'_def)

lemma MissionCreate_hides:
  "''status'' \<notin> set (field_names MissionCreate)"
  "''progress_percentage'' \<notin> set (field_names MissionCreate)"
  "''actual_completion'' \<notin> set (field_names MissionCreate)"
  by (simp_all add: field_names_def MissionCreate_def)

lemma Mission_status_decl:
  "(''status'', TEnum MissionStatus, Field'\<lparr>default' := Default (member MissionStatus ''PENDING'')\<rparr>)
     \<in> set (model_fields Mission)"
  by (simp add: Mission_def)

lemma Mission_progress_decl:
  "(''progress_percentage'', TDecimal,
      Field'\<lparr>default' := Default (PDecimal 0), ge := Some 0, le := Some 100\<rparr>)
     \<in> set (model_fields Mission)"
  by (simp add: Mission_def)

lemma Mission_actual_completion_decl:
  "(''actual_completion'', TOptional TDatetime, Field'\<lparr>default' := Default PNone\<rparr>)
     \<in> set (model_fields Mission)"
  by (simp add: Mission_def)

lemma MissionUpdate_no_actual_completion:
  "''actual_completion'' \<notin> set (field_names MissionUpdate)"
  by (simp add: field_names_def MissionUpdate_def)

section \<open>Bounded decimal fields\<close>

lemma bounded_decimal_decl:
  assumes "(cls, f) \<in> set bounded_decimal_fields"
  shows "\<exists>fi. (f, TDecimal, fi) \<in> set (model_fields cls) \<and> ge fi = Some 0 \<and> le fi = Some 100"
proof -
  let ?Q = "\<lambda>cls f. \<exists>fi. (f, TDecimal, fi) \<in> set (model_fields cls) \<and>
     ge fi = Some 0 \<and> le fi = Some 100"
  have 1: "?Q Glyph ''power_level''"
    by (simp add: Glyph_def Field'_def)
  have 2: "?Q TransformationProtocol ''success_rate''"
    by (simp add: TransformationProtocol_def Field'_def)
  have 3: "?Q Mission ''progress_percentage''"
    by (simp add: Mission_def Field'_def)
  have 4: "?Q QuantumShield ''integrity_percentage''"
    by (simp add: QuantumShield_def Field'_def)
  have 5: "?Q QuantumShield ''energy_level''"
    by (simp add: QuantumShield_def Field'_def)
  have 6: "?Q EmotionalResonance ''resonance_level''"
    by (simp add: EmotionalResonance_def Field'_def)
  have 7: "?Q EmotionalResonance ''harmony_index''"
    by (simp add: EmotionalResonance_def Field'_def)
  have 8: "?Q EmotionalResonance ''sync_stability''"
    by (simp add: EmotionalResonance_def Field'_def)
  have 9: "?Q HealingModule ''energy_efficiency''"
    by (simp add: HealingModule_def Field'_def)
  have "\<forall>(cls, f) \<in> set bounded_decimal_fields. ?Q cls f"
    unfolding bounded_decimal_fields_def list.set ball_simps prod.case
    using 1 2 3 4 5 6 7 8 9 by blast
  with assms show ?thesis by blast
qed

lemma bounded_decimal_distinct:
  assumes "(cls, f) \<in> set bounded_decimal_fields"
  shows "distinct (map fst (model_fields cls))"
proof -
  have "\<forall>(cls, f) \<in> set bounded_decimal_fields. distinct (map fst (model_fields cls))"
    unfolding bounded_decimal_fields_def list.set ball_simps prod.case
    using distinct_entities by blast
  with assms show ?thesis by blast
qed

lemma validate_percentage:
  assumes "ge fi = Some 0" "le fi = Some 100"
  shows "validate_field lax now TDecimal fi (Some (PDecimal d)) =
    (if d < 0 then Inl [greater_than_equal 0]
     else if 100 < d then Inl [less_than_equal 100]
     else Inr (PDecimal d))"
  using assms by (simp add: validate_field_def bound_errors_def)

lemma bounded_decimal_table:
  assumes "(cls, f) \<in> set bounded_decimal_fields"
  shows "tablename cls \<noteq> None"
proof -
  have "\<forall>(cls, f) \<in> set bounded_decimal_fields. tablename cls \<noteq> None"
    unfolding bounded_decimal_fields_def list.set ball_simps prod.case
    by (simp add: entity_tablename)
  with assms show ?thesis by blast
qed

text \<open>
  C1, as the module has it. The owners of the nine percentage fields are
  \<^verbatim>\<open>table=True\<close> classes. The declared range is enforced when the data of the owning
  entity are validated: with a value below 0 validation fails with a ValidationError
  that reports the field under \<open>greater_than_equal 0\<close>, with a value above 100 it fails
  and reports the field under \<open>less_than_equal 100\<close>, and with a value from 0 to 100, both
  ends included, it succeeds and stores the value, provided no other field of the input
  is in error. Constructing the owning entity never fails and stores the value given:
  it succeeds at 0 and at 100, and below 0 and above 100 as well.
\<close>

theorem bounded_decimal_range:
  assumes "(cls, f) \<in> set bounded_decimal_fields"
  shows "(d < 0 \<longrightarrow>
            (\<exists>errs. model_validate lax cls now (kw(f \<mapsto> PDecimal d)) = Inl (ValidationError errs)
               \<and> (f, greater_than_equal 0) \<in> set errs))
       \<and> (100 < d \<longrightarrow>
            (\<exists>errs. model_validate lax cls now (kw(f \<mapsto> PDecimal d)) = Inl (ValidationError errs)
               \<and> (f, less_than_equal 100) \<in> set errs))
       \<and> (0 \<le> d \<and> d \<le> 100
            \<and> (\<forall>g e. (g, e) \<in> set (validation_errors lax cls now kw) \<longrightarrow> g = f) \<longrightarrow>
            (\<exists>r. model_validate lax cls now (kw(f \<mapsto> PDecimal d)) = Inr r
               \<and> map_of r f = Some (PDecimal d)))
       \<and> (\<exists>r. construct lax cls now (kw(f \<mapsto> PDecimal d)) = Inr r
               \<and> map_of r f = Some (PDecimal d))"
proof -
  obtain fi where decl: "(f, TDecimal, fi) \<in> set (model_fields cls)"
    and b: "ge fi = Some 0" "le fi = Some 100"
    using bounded_decimal_decl[OF assms] by blast
  note dist = bounded_decimal_distinct[OF assms]
  note v = validate_percentage[OF b, where lax = lax and now = now and d = d]
  have low: "\<exists>errs. model_validate lax cls now (kw(f \<mapsto> PDecimal d)) = Inl (ValidationError errs)
            \<and> (f, greater_than_equal 0) \<in> set errs" if "d < 0"
    by (rule set_field_fails[OF decl, where es = "[greater_than_equal 0]"]) (use v that in simp_all)
  have high: "\<exists>errs. model_validate lax cls now (kw(f \<mapsto> PDecimal d)) = Inl (ValidationError errs)
            \<and> (f, less_than_equal 100) \<in> set errs" if "100 < d"
    by (rule set_field_fails[OF decl, where es = "[less_than_equal 100]"]) (use v that in simp_all)
  have mid: "\<exists>r. model_validate lax cls now (kw(f \<mapsto> PDecimal d)) = Inr r
            \<and> map_of r f = Some (PDecimal d)"
    if "0 \<le> d" "d \<le> 100" "\<forall>g e. (g, e) \<in> set (validation_errors lax cls now kw) \<longrightarrow> g = f"
    by (rule set_field_succeeds[OF dist decl _ that(3)]) (use v that in simp)
  have made: "\<exists>r. construct lax cls now (kw(f \<mapsto> PDecimal d)) = Inr r
            \<and> map_of r f = Some (PDecimal d)"
    by (rule construct_table_given[OF bounded_decimal_table[OF assms] decl])
  from low high mid made show ?thesis by blast
qed

theorem bounded_decimal_range_witness:
  "(\<exists>errs. model_validate no_conversion Glyph 0
       [''name'' \<mapsto> PStr (str ''ankh''), ''symbol'' \<mapsto> PStr (str ''A''),
        ''power_level'' \<mapsto> PDecimal (- 1 / 10)] = Inl (ValidationError errs)
      \<and> (''power_level'', greater_than_equal 0) \<in> set errs)
   \<and> (\<exists>errs. model_validate no_conversion Glyph 0
       [''name'' \<mapsto> PStr (str ''ankh''), ''symbol'' \<mapsto> PStr (str ''A''),
        ''power_level'' \<mapsto> PDecimal (1001 / 10)] = Inl (ValidationError errs)
      \<and> (''power_level'', less_than_equal 100) \<in> set errs)
   \<and> (\<exists>r. model_validate no_conversion Glyph 0
       [''name'' \<mapsto> PStr (str ''ankh''), ''symbol'' \<mapsto> PStr (str ''A''),
        ''power_level'' \<mapsto> PDecimal 0] = Inr r \<and> map_of r ''power_level'' = Some (PDecimal 0))
   \<and> (\<exists>r. model_validate no_conversion Glyph 0
       [''name'' \<mapsto> PStr (str ''ankh''), ''symbol'' \<mapsto> PStr (str ''A''),
        ''power_level'' \<mapsto> PDecimal 100] = Inr r \<and> map_of r ''power_level'' = Some (PDecimal 100))
   \<and> (\<exists>r. construct no_conversion Glyph 0
       [''name'' \<mapsto> PStr (str ''ankh''), ''symbol'' \<mapsto> PStr (str ''A''),
        ''power_level'' \<mapsto> PDecimal 0] = Inr r \<and> map_of r ''power_level'' = Some (PDecimal 0))
   \<and> (\<exists>r. construct no_conversion Glyph 0
       [''name'' \<mapsto> PStr (str ''ankh''), ''symbol'' \<mapsto> PStr (str ''A''),
        ''power_level'' \<mapsto> PDecimal 100] = Inr r \<and> map_of r ''power_level'' = Some (PDecimal 100))"
proof -
  let ?kw = "[''name'' \<mapsto> PStr (str ''ankh''), ''symbol'' \<mapsto> PStr (str ''A'')]"
  have m: "(Glyph, ''power_level'') \<in> set bounded_decimal_fields"
    by (simp add: bounded_decimal_fields_def)
  have ok: "\<forall>g e. (g, e) \<in> set (validation_errors no_conversion Glyph 0 ?kw) \<longrightarrow> g = ''power_level''"
    by (simp add: validate_unfold Glyph_def GlyphCategory_def)
  show ?thesis
    using bounded_decimal_range[OF m, where d = "- 1 / 10" and lax = no_conversion and now = 0 and kw = ?kw]
      bounded_decimal_range[OF m, where d = "1001 / 10" and lax = no_conversion and now = 0 and kw = ?kw]
      bounded_decimal_range[OF m, where d = 0 and lax = no_conversion and now = 0 and kw = ?kw]
      bounded_decimal_range[OF m, where d = 100 and lax = no_conversion and now = 0 and kw = ?kw] ok
    by simp
qed

text \<open>
  C1 as stated does not hold: constructing a Glyph with power level \<open>-1/10\<close> raises
  nothing and yields a Glyph that holds \<open>-1/10\<close>.
\<close>

theorem bounded_decimal_construct_counterexample:
  "construct no_conversion Glyph 0
     [''name'' \<mapsto> PStr (str ''ankh''), ''symbol'' \<mapsto> PStr (str ''A''),
      ''power_level'' \<mapsto> PDecimal (- 1 / 10)]
   = Inr [(''id'', PNone), (''name'', PStr (str ''ankh'')), (''symbol'', PStr (str ''A'')),
          (''category'', PStr (str ''energy'')), (''power_level'', PDecimal (- 1 / 10)),
          (''description'', PStr []), (''properties'', PDict []), (''is_active'', PBool True),
          (''discovered_at'', PDatetime 0), (''last_used'', PNone)]"
  by (simp add: construct_def table_construct_def field_init_def Glyph_def Field'_def
      member_def GlyphCategory_def)

section \<open>The order of the steps of a protocol\<close>

lemma step_order_decl:
  "(''step_order'', TInt, Field'\<lparr>ge := Some 1\<rparr>) \<in> set (model_fields TransformationStep)"
  by (simp add: TransformationStep_def)

lemma validate_step_order:
  assumes "validate_field lax now TInt (Field'\<lparr>ge := Some 1\<rparr>) x = Inr v"
  shows "\<exists>n. v = PInt n \<and> 1 \<le> n"
proof -
  from assms obtain u where u: "check_type lax TInt u = Inr v"
    and c: "check_constraints (Field'\<lparr>ge := Some 1\<rparr>) v = []"
    by (cases x) (auto simp: validate_field_def Field'_def split: sum.splits if_splits)
  from u obtain n where "v = PInt n"
    using check_type_TInt by blast
  with c show ?thesis
    by (auto simp: bound_errors_def Field'_def split: if_splits)
qed

lemma TransformationStep_table: "tablename TransformationStep \<noteq> None"
  by (simp add: entity_tablename)

text \<open>
  C2, as the module has it. The one constraint on \<^verbatim>\<open>step_order\<close> is \<^verbatim>\<open>ge=1\<close>, and it is
  enforced when the data of a step are validated: every TransformationStep that
  validation accepts stores an integer step order of at least 1, and a step given an
  integer step order below 1 is rejected with a ValidationError that reports the field
  under \<open>greater_than_equal 1\<close>. TransformationStep is a \<^verbatim>\<open>table=True\<close> class: constructing
  a step never fails and stores the step order given, whatever it is. The module
  declares nothing that relates the step order of one step to that of another step.
\<close>

theorem step_order_at_least_one:
  "(model_validate lax TransformationStep now kw = Inr r \<longrightarrow>
      (\<exists>n. map_of r ''step_order'' = Some (PInt n) \<and> 1 \<le> n))
   \<and> (k < 1 \<longrightarrow>
      (\<exists>errs. model_validate lax TransformationStep now (kw(''step_order'' \<mapsto> PInt k))
          = Inl (ValidationError errs)
        \<and> (''step_order'', greater_than_equal 1) \<in> set errs))
   \<and> (\<exists>s. construct lax TransformationStep now (kw(''step_order'' \<mapsto> v)) = Inr s
        \<and> map_of s ''step_order'' = Some v)"
proof -
  have accepted: "\<exists>n. map_of r ''step_order'' = Some (PInt n) \<and> 1 \<le> n"
    if a: "model_validate lax TransformationStep now kw = Inr r"
  proof -
    from a have e: "validation_errors lax TransformationStep now kw = []"
      and r: "r = validated_data lax TransformationStep now kw"
      by (simp_all add: model_validate_Inr_iff)
    from e step_order_decl obtain w
      where w: "validate_field lax now TInt (Field'\<lparr>ge := Some 1\<rparr>) (kw ''step_order'') = Inr w"
      unfolding validation_errors_Nil_iff by blast
    then obtain n where n: "w = PInt n" "1 \<le> n"
      using validate_step_order by blast
    have "map_of r ''step_order'' = Some w"
      unfolding r
      using map_of_validated_data[OF distinct_TransformationStep step_order_decl,
          where lax = lax and now = now and kw = kw and v = w] w
      by simp
    with n show ?thesis by simp
  qed
  have rejected: "\<exists>errs. model_validate lax TransformationStep now (kw(''step_order'' \<mapsto> PInt k))
          = Inl (ValidationError errs)
        \<and> (''step_order'', greater_than_equal 1) \<in> set errs" if "k < 1"
    by (rule set_field_fails[OF step_order_decl, where es = "[greater_than_equal 1]"])
      (use that in \<open>simp_all add: validate_field_def bound_errors_def Field'_def\<close>)
  have made: "\<exists>s. construct lax TransformationStep now (kw(''step_order'' \<mapsto> v)) = Inr s
        \<and> map_of s ''step_order'' = Some v"
    by (rule construct_table_given[OF TransformationStep_table step_order_decl])
  from accepted rejected made show ?thesis by blast
qed

theorem step_order_at_least_one_witness:
  "model_validate no_conversion TransformationStep 0
     [''protocol_id'' \<mapsto> PInt 1, ''step_order'' \<mapsto> PInt 2,
      ''instruction'' \<mapsto> PStr (str ''Invoke glyph'')]
   = Inr [(''id'', PNone), (''protocol_id'', PInt 1), (''glyph_id'', PNone),
          (''step_order'', PInt 2), (''instruction'', PStr (str ''Invoke glyph'')),
          (''duration_seconds'', PInt 300), (''parameters'', PDict [])]
   \<and> (\<exists>n. map_of [(''id'', PNone), (''protocol_id'', PInt 1), (''glyph_id'', PNone),
          (''step_order'', PInt 2), (''instruction'', PStr (str ''Invoke glyph'')),
          (''duration_seconds'', PInt 300), (''parameters'', PDict [])] ''step_order''
        = Some (PInt n) \<and> 1 \<le> n)
   \<and> (\<exists>errs. model_validate no_conversion TransformationStep 0
     [''protocol_id'' \<mapsto> PInt 1, ''instruction'' \<mapsto> PStr (str ''Invoke glyph''),
      ''step_order'' \<mapsto> PInt 0] = Inl (ValidationError errs)
        \<and> (''step_order'', greater_than_equal 1) \<in> set errs)
   \<and> (\<exists>s. construct no_conversion TransformationStep 0
     [''protocol_id'' \<mapsto> PInt 1, ''instruction'' \<mapsto> PStr (str ''Invoke glyph''),
      ''step_order'' \<mapsto> PInt 0] = Inr s
        \<and> map_of s ''step_order'' = Some (PInt 0))"
proof -
  let ?kw = "[''protocol_id'' \<mapsto> PInt 1, ''step_order'' \<mapsto> PInt 2,
      ''instruction'' \<mapsto> PStr (str ''Invoke glyph'')]"
  let ?low = "[''protocol_id'' \<mapsto> PInt 1, ''instruction'' \<mapsto> PStr (str ''Invoke glyph'')]"
  let ?r = "[(''id'', PNone), (''protocol_id'', PInt 1), (''glyph_id'', PNone),
          (''step_order'', PInt 2), (''instruction'', PStr (str ''Invoke glyph'')),
          (''duration_seconds'', PInt 300), (''parameters'', PDict [])]"
  have v: "model_validate no_conversion TransformationStep 0 ?kw = Inr ?r"
    by (simp add: validate_unfold TransformationStep_def)
  have z: "(0::int) < 1"
    by simp
  note accepted = step_order_at_least_one[where lax = no_conversion and now = 0 and kw = ?kw
      and r = ?r, THEN conjunct1, rule_format, OF v]
  note rejected = step_order_at_least_one[where lax = no_conversion and now = 0 and kw = ?low
      and k = 0, THEN conjunct2, THEN conjunct1, rule_format, OF z]
  note made = step_order_at_least_one[where lax = no_conversion and now = 0 and kw = ?low
      and v = "PInt 0", THEN conjunct2, THEN conjunct2]
  show ?thesis
    using v accepted rejected made by (intro conjI)
qed

text \<open>
  C2 as stated does not hold: two steps of protocol 1 that both have step order 1
  are both accepted by validation, and so is a step of protocol 1 with step order 7,
  which leaves the orders 2 to 6 unused; the constructor takes the two steps with step
  order 1 as well.
\<close>

theorem step_order_unique_counterexample:
  "model_validate no_conversion TransformationStep 0
     [''protocol_id'' \<mapsto> PInt 1, ''step_order'' \<mapsto> PInt 1,
      ''instruction'' \<mapsto> PStr (str ''Align crystals'')]
   = Inr [(''id'', PNone), (''protocol_id'', PInt 1), (''glyph_id'', PNone),
          (''step_order'', PInt 1), (''instruction'', PStr (str ''Align crystals'')),
          (''duration_seconds'', PInt 300), (''parameters'', PDict [])]
   \<and> model_validate no_conversion TransformationStep 0
     [''protocol_id'' \<mapsto> PInt 1, ''step_order'' \<mapsto> PInt 1,
      ''instruction'' \<mapsto> PStr (str ''Invoke glyph'')]
   = Inr [(''id'', PNone), (''protocol_id'', PInt 1), (''glyph_id'', PNone),
          (''step_order'', PInt 1), (''instruction'', PStr (str ''Invoke glyph'')),
          (''duration_seconds'', PInt 300), (''parameters'', PDict [])]
   \<and> model_validate no_conversion TransformationStep 0
     [''protocol_id'' \<mapsto> PInt 1, ''step_order'' \<mapsto> PInt 7,
      ''instruction'' \<mapsto> PStr (str ''Seal circle'')]
   = Inr [(''id'', PNone), (''protocol_id'', PInt 1), (''glyph_id'', PNone),
          (''step_order'', PInt 7), (''instruction'', PStr (str ''Seal circle'')),
          (''duration_seconds'', PInt 300), (''parameters'', PDict [])]
   \<and> construct no_conversion TransformationStep 0
     [''protocol_id'' \<mapsto> PInt 1, ''step_order'' \<mapsto> PInt 1,
      ''instruction'' \<mapsto> PStr (str ''Align crystals'')]
   = Inr [(''id'', PNone), (''protocol_id'', PInt 1), (''glyph_id'', PNone),
          (''step_order'', PInt 1), (''instruction'', PStr (str ''Align crystals'')),
          (''duration_seconds'', PInt 300), (''parameters'', PDict [])]
   \<and> construct no_conversion TransformationStep 0
     [''protocol_id'' \<mapsto> PInt 1, ''step_order'' \<mapsto> PInt 1,
      ''instruction'' \<mapsto> PStr (str ''Invoke glyph'')]
   = Inr [(''id'', PNone), (''protocol_id'', PInt 1), (''glyph_id'', PNone),
          (''step_order'', PInt 1), (''instruction'', PStr (str ''Invoke glyph'')),
          (''duration_seconds'', PInt 300), (''parameters'', PDict [])]"
  by (simp add: validate_unfold construct_def table_construct_def field_init_def
      TransformationStep_def)

section \<open>Create and Update shapes\<close>

lemma create_shape_lookup:
  "create_shape ''Glyph'' = Some GlyphCreate"
  "create_shape ''TransformationProtocol'' = Some TransformationProtocolCreate"
  "create_shape ''TransformationStep'' = None"
  "create_shape ''Mission'' = Some MissionCreate"
  "create_shape ''MissionLogEntry'' = None"
  "create_shape ''EmotionalResonance'' = Some EmotionalResonanceCreate"
  "create_shape ''QuantumShield'' = Some QuantumShieldCreate"
  "create_shape ''HealingModule'' = Some HealingModuleCreate"
  by (simp_all add: create_shape_def module_classes_def)

lemma update_shape_lookup:
  "update_shape ''Glyph'' = Some GlyphUpdate"
  "update_shape ''TransformationProtocol'' = None"
  "update_shape ''TransformationStep'' = None"
  "update_shape ''Mission'' = Some MissionUpdate"
  "update_shape ''MissionLogEntry'' = None"
  "update_shape ''EmotionalResonance'' = None"
  "update_shape ''QuantumShield'' = Some QuantumShieldUpdate"
  "update_shape ''HealingModule'' = None"
  by (simp_all add: update_shape_def module_classes_def)

lemma entity_names_eq:
  "entity_names =
    [''Glyph'', ''TransformationProtocol'', ''TransformationStep'', ''Mission'',
     ''MissionLogEntry'', ''EmotionalResonance'', ''QuantumShield'', ''HealingModule'']"
  by (simp add: entity_names_def module_classes_def schema_tablename entity_tablename)

lemma GlyphCreate_mirrors:
  "list_all (mirrors Glyph) (model_fields GlyphCreate)"
  "required_fields GlyphCreate = required_fields Glyph"
  by (simp_all add: mirrors_def same_constraints_def required_fields_def
      GlyphCreate_def Glyph_def Field'_def)

lemma TransformationProtocolCreate_mirrors:
  "list_all (mirrors TransformationProtocol) (model_fields TransformationProtocolCreate)"
  "required_fields TransformationProtocolCreate = required_fields TransformationProtocol"
  by (simp_all add: mirrors_def same_constraints_def required_fields_def
      TransformationProtocolCreate_def TransformationProtocol_def Field'_def)

lemma EmotionalResonanceCreate_mirrors:
  "list_all (mirrors EmotionalResonance) (model_fields EmotionalResonanceCreate)"
  "required_fields EmotionalResonanceCreate = required_fields EmotionalResonance"
  by (simp_all add: mirrors_def same_constraints_def required_fields_def
      EmotionalResonanceCreate_def EmotionalResonance_def Field'_def)

lemma QuantumShieldCreate_mirrors:
  "list_all (mirrors QuantumShield) (model_fields QuantumShieldCreate)"
  "required_fields QuantumShieldCreate = required_fields QuantumShield"
  by (simp_all add: mirrors_def same_constraints_def required_fields_def
      QuantumShieldCreate_def QuantumShield_def Field'_def)

lemma HealingModuleCreate_mirrors:
  "list_all (mirrors HealingModule) (model_fields HealingModuleCreate)"
  "required_fields HealingModuleCreate = required_fields HealingModule"
  by (simp_all add: mirrors_def same_constraints_def required_fields_def
      HealingModuleCreate_def HealingModule_def Field'_def)

lemma GlyphUpdate_optional: "list_all (makes_optional Glyph) (model_fields GlyphUpdate)"
  by (simp add: makes_optional_def optional_def same_constraints_def
      GlyphUpdate_def Glyph_def Field'_def)

lemma MissionUpdate_optional: "list_all (makes_optional Mission) (model_fields MissionUpdate)"
  by (simp add: makes_optional_def optional_def same_constraints_def
      MissionUpdate_def Mission_def Field'_def)

lemma QuantumShieldUpdate_optional:
  "list_all (makes_optional QuantumShield) (model_fields QuantumShieldUpdate)"
  by (simp add: makes_optional_def optional_def same_constraints_def
      QuantumShieldUpdate_def QuantumShield_def Field'_def)

text \<open>
  C3, as the module has it. Six of the eight entities have a Create shape and three
  have an Update shape; TransformationStep and MissionLogEntry have neither. Every field
  of a Create shape is the entity's field of that name, with the same annotation,
  default and constraints, and the Create shape requires exactly the fields the entity
  requires. Every field of an Update shape is the entity's field of that name made
  optional: annotation \<^verbatim>\<open>Optional\<close>, default \<^verbatim>\<open>None\<close>, same constraints.
\<close>

theorem shapes_of_entities:
  "map (\<lambda>e. (e, create_shape e \<noteq> None, update_shape e \<noteq> None)) entity_names =
     [(''Glyph'', True, True), (''TransformationProtocol'', True, False),
      (''TransformationStep'', False, False), (''Mission'', True, True),
      (''MissionLogEntry'', False, False), (''EmotionalResonance'', True, False),
      (''QuantumShield'', True, True), (''HealingModule'', True, False)]
   \<and> (\<forall>(e, cls) \<in> set module_classes. tablename cls \<noteq> None \<longrightarrow>
        (\<forall>c. create_shape e = Some c \<longrightarrow>
           list_all (mirrors cls) (model_fields c) \<and> required_fields c = required_fields cls)
        \<and> (\<forall>u. update_shape e = Some u \<longrightarrow> list_all (makes_optional cls) (model_fields u)))"
proof -
  have presence: "map (\<lambda>e. (e, create_shape e \<noteq> None, update_shape e \<noteq> None)) entity_names =
     [(''Glyph'', True, True), (''TransformationProtocol'', True, False),
      (''TransformationStep'', False, False), (''Mission'', True, True),
      (''MissionLogEntry'', False, False), (''EmotionalResonance'', True, False),
      (''QuantumShield'', True, True), (''HealingModule'', True, False)]"
    by (simp add: entity_names_eq create_shape_lookup update_shape_lookup)
  have fields: "\<forall>(e, cls) \<in> set module_classes. tablename cls \<noteq> None \<longrightarrow>
        (\<forall>c. create_shape e = Some c \<longrightarrow>
           list_all (mirrors cls) (model_fields c) \<and> required_fields c = required_fields cls)
        \<and> (\<forall>u. update_shape e = Some u \<longrightarrow> list_all (makes_optional cls) (model_fields u))"
    unfolding module_classes_def list.set ball_simps prod.case
    by (simp add: schema_tablename create_shape_lookup update_shape_lookup
        GlyphCreate_mirrors TransformationProtocolCreate_mirrors MissionCreate_mirrors
        EmotionalResonanceCreate_mirrors QuantumShieldCreate_mirrors HealingModuleCreate_mirrors
        GlyphUpdate_optional MissionUpdate_optional QuantumShieldUpdate_optional)
  from presence fields show ?thesis ..
qed

theorem shapes_of_entities_witness:
  "tablename Mission \<noteq> None
   \<and> create_shape ''Mission'' = Some MissionCreate
   \<and> update_shape ''Mission'' = Some MissionUpdate
   \<and> list_all (mirrors Mission) (model_fields MissionCreate)
   \<and> required_fields MissionCreate = required_fields Mission
   \<and> list_all (makes_optional Mission) (model_fields MissionUpdate)"
proof -
  have m: "(''Mission'', Mission) \<in> set module_classes"
    by (simp add: module_classes_def)
  have t: "tablename Mission \<noteq> None"
    by (simp add: entity_tablename)
  have "\<forall>(e, cls) \<in> set module_classes. tablename cls \<noteq> None \<longrightarrow>
        (\<forall>c. create_shape e = Some c \<longrightarrow>
           list_all (mirrors cls) (model_fields c) \<and> required_fields c = required_fields cls)
        \<and> (\<forall>u. update_shape e = Some u \<longrightarrow> list_all (makes_optional cls) (model_fields u))"
    using shapes_of_entities by (rule conjunct2)
  from bspec[OF this m]
  have "tablename Mission \<noteq> None \<longrightarrow>
        (\<forall>c. create_shape ''Mission'' = Some c \<longrightarrow>
           list_all (mirrors Mission) (model_fields c) \<and> required_fields c = required_fields Mission)
        \<and> (\<forall>u. update_shape ''Mission'' = Some u \<longrightarrow> list_all (makes_optional Mission) (model_fields u))"
    by (simp only: prod.case)
  with t create_shape_lookup(4) update_shape_lookup(4) show ?thesis
    by simp
qed

text \<open>
  C3 as stated does not hold: TransformationStep is an entity with no Create and
  no Update shape, and \<^verbatim>\<open>protocol_id\<close> is a field of Mission that MissionUpdate does not
  have.
\<close>

theorem shapes_counterexample:
  "''TransformationStep'' \<in> set entity_names
   \<and> create_shape ''TransformationStep'' = None
   \<and> update_shape ''TransformationStep'' = None
   \<and> ''protocol_id'' \<in> set (field_names Mission)
   \<and> ''protocol_id'' \<notin> set (field_names MissionUpdate)"
  by (simp add: entity_names_eq create_shape_lookup update_shape_lookup field_names_def
      Mission_def MissionUpdate_def)

section \<open>Actual completion and status of a Mission\<close>

lemma Mission_table: "tablename Mission \<noteq> None"
  by (simp add: entity_tablename)

text \<open>
  C4, as the module has it. The Mission entity declares \<^verbatim>\<open>status\<close> and
  \<^verbatim>\<open>actual_completion\<close> as two independent fields. Validation of the data of a Mission
  accepts an actual completion together with every member of MissionStatus, and stores
  both, provided no other field is in error; the constructor of the \<^verbatim>\<open>table=True\<close> entity
  accepts an actual completion together with any status value at all. What the shapes
  give: a Mission made from a MissionCreate shape has no actual completion, and neither
  MissionCreate nor MissionUpdate has a field \<^verbatim>\<open>actual_completion\<close>.
\<close>

theorem actual_completion_with_any_status:
  "(s \<in> set (members MissionStatus)
      \<and> (\<forall>g e. (g, e) \<in> set (validation_errors lax Mission now kw) \<longrightarrow>
            g = ''status'' \<or> g = ''actual_completion'') \<longrightarrow>
      (\<exists>r. model_validate lax Mission now
              (kw(''status'' \<mapsto> s, ''actual_completion'' \<mapsto> PDatetime t)) = Inr r
         \<and> map_of r ''status'' = Some s
         \<and> map_of r ''actual_completion'' = Some (PDatetime t)))
   \<and> (\<exists>r. construct lax Mission now
              (kw(''status'' \<mapsto> s, ''actual_completion'' \<mapsto> PDatetime t)) = Inr r
         \<and> map_of r ''status'' = Some s
         \<and> map_of r ''actual_completion'' = Some (PDatetime t))
   \<and> (create_from lax MissionCreate Mission now kw = Inr m \<longrightarrow>
         map_of m ''actual_completion'' = Some PNone)
   \<and> ''actual_completion'' \<notin> set (field_names MissionCreate)
   \<and> ''actual_completion'' \<notin> set (field_names MissionUpdate)"
proof -
  let ?sfi = "Field'\<lparr>default' := Default (member MissionStatus ''PENDING'')\<rparr>"
  let ?afi = "Field'\<lparr>default' := Default PNone\<rparr>"
  let ?K = "kw(''status'' \<mapsto> s, ''actual_completion'' \<mapsto> PDatetime t)"
  have validated: "\<exists>r. model_validate lax Mission now ?K = Inr r
         \<and> map_of r ''status'' = Some s
         \<and> map_of r ''actual_completion'' = Some (PDatetime t)"
    if mem: "s \<in> set (members MissionStatus)"
      and others: "\<forall>g e. (g, e) \<in> set (validation_errors lax Mission now kw) \<longrightarrow>
            g = ''status'' \<or> g = ''actual_completion''"
  proof -
    have ml: "max_length ?sfi = None"
      by (simp add: Field'_def)
    have ok1: "validate_field lax now (TEnum MissionStatus) ?sfi (Some s) = Inr s"
      using validate_enum[OF ml, where lax = lax and now = now and E = MissionStatus and v = s] mem
      by simp
    have ok2: "validate_field lax now (TOptional TDatetime) ?afi (Some (PDatetime t))
        = Inr (PDatetime t)"
      by (simp add: validate_field_def)
    have ne: "''status'' \<noteq> ''actual_completion''"
      by simp
    show ?thesis
      by (rule set_two_fields_succeed[OF distinct_Mission Mission_status_decl
            Mission_actual_completion_decl ne ok1 ok2 others])
  qed
  have made: "\<exists>r. construct lax Mission now ?K = Inr r
         \<and> map_of r ''status'' = Some s
         \<and> map_of r ''actual_completion'' = Some (PDatetime t)"
  proof -
    have "map_of (table_construct Mission now ?K) ''status'' = Some s"
      by (rule table_construct_given[OF Mission_status_decl]) simp
    moreover have "map_of (table_construct Mission now ?K) ''actual_completion''
        = Some (PDatetime t)"
      by (rule table_construct_given[OF Mission_actual_completion_decl]) simp
    ultimately show ?thesis
      by (simp add: construct_table[OF Mission_table])
  qed
  have unset: "map_of m ''actual_completion'' = Some PNone"
    if c: "create_from lax MissionCreate Mission now kw = Inr m"
    using create_from_default[OF distinct_Mission Mission_actual_completion_decl _
        MissionCreate_hides(3) c]
    by simp
  from validated made unset MissionCreate_hides(3) MissionUpdate_no_actual_completion
  show ?thesis
    by blast
qed

theorem actual_completion_with_any_status_witness:
  "(\<exists>r. model_validate no_conversion Mission 5
       [''title'' \<mapsto> PStr (str ''Dusk''), ''status'' \<mapsto> PStr (str ''failed''),
        ''actual_completion'' \<mapsto> PDatetime 86400] = Inr r
      \<and> map_of r ''status'' = Some (PStr (str ''failed''))
      \<and> map_of r ''actual_completion'' = Some (PDatetime 86400))
   \<and> create_from no_conversion MissionCreate Mission 5 [''title'' \<mapsto> PStr (str ''Dusk'')]
     = Inr [(''id'', PNone), (''title'', PStr (str ''Dusk'')), (''description'', PStr []),
          (''status'', PStr (str ''pending'')), (''priority'', PStr (str ''medium'')),
          (''protocol_id'', PNone), (''assigned_entity'', PStr []),
          (''target_location'', PStr []), (''objectives'', PList []),
          (''progress_percentage'', PDecimal 0), (''estimated_completion'', PNone),
          (''actual_completion'', PNone), (''created_at'', PDatetime 5),
          (''started_at'', PNone), (''mission_metadata'', PDict [])]
   \<and> map_of [(''id'', PNone), (''title'', PStr (str ''Dusk'')), (''description'', PStr []),
          (''status'', PStr (str ''pending'')), (''priority'', PStr (str ''medium'')),
          (''protocol_id'', PNone), (''assigned_entity'', PStr []),
          (''target_location'', PStr []), (''objectives'', PList []),
          (''progress_percentage'', PDecimal 0), (''estimated_completion'', PNone),
          (''actual_completion'', PNone), (''created_at'', PDatetime 5),
          (''started_at'', PNone), (''mission_metadata'', PDict [])] ''actual_completion''
     = Some PNone"
proof -
  let ?kw = "[''title'' \<mapsto> PStr (str ''Dusk'')]"
  let ?d = "[(''title'', PStr (str ''Dusk'')), (''description'', PStr []),
      (''priority'', PStr (str ''medium'')), (''protocol_id'', PNone),
      (''assigned_entity'', PStr []), (''target_location'', PStr []),
      (''objectives'', PList []), (''estimated_completion'', PNone)]"
  let ?m = "[(''id'', PNone), (''title'', PStr (str ''Dusk'')), (''description'', PStr []),
          (''status'', PStr (str ''pending'')), (''priority'', PStr (str ''medium'')),
          (''protocol_id'', PNone), (''assigned_entity'', PStr []),
          (''target_location'', PStr []), (''objectives'', PList []),
          (''progress_percentage'', PDecimal 0), (''estimated_completion'', PNone),
          (''actual_completion'', PNone), (''created_at'', PDatetime 5),
          (''started_at'', PNone), (''mission_metadata'', PDict [])]"
  have mem: "PStr (str ''failed'') \<in> set (members MissionStatus)"
    by (simp add: members_def MissionStatus_def str_def)
  have ok: "\<forall>g e. (g, e) \<in> set (validation_errors no_conversion Mission 5 ?kw) \<longrightarrow>
      g = ''status'' \<or> g = ''actual_completion''"
    by (simp add: validate_unfold Mission_def MissionStatus_def MissionPriority_def)
  have s: "model_validate no_conversion MissionCreate 5 ?kw = Inr ?d"
    by (simp add: validate_unfold MissionCreate_def MissionPriority_def)
  have e: "model_validate no_conversion Mission 5 (map_of ?d) = Inr ?m"
    by (simp add: validate_unfold Mission_def MissionPriority_def MissionStatus_def)
  have c: "create_from no_conversion MissionCreate Mission 5 ?kw = Inr ?m"
    unfolding create_from_def s sum.case by (rule e)
  note t = actual_completion_with_any_status[where lax = no_conversion and now = 5
      and kw = ?kw and s = "PStr (str ''failed'')" and t = 86400 and m = ?m]
  note validated = t[THEN conjunct1, rule_format, OF conjI[OF mem ok]]
  note unset = t[THEN conjunct2, THEN conjunct2, THEN conjunct1, rule_format, OF c]
  show ?thesis
    using validated c unset by (intro conjI)
qed

text \<open>
  C4 as stated does not hold: the Mission entity accepts an actual completion
  together with the status \<^verbatim>\<open>active\<close>, and stores both, when its data are validated
  and when it is constructed.
\<close>

theorem actual_completion_counterexample:
  "model_validate no_conversion Mission 0
     [''title'' \<mapsto> PStr (str ''Dawn''), ''status'' \<mapsto> PStr (str ''active''),
      ''actual_completion'' \<mapsto> PDatetime 86400]
   = Inr [(''id'', PNone), (''title'', PStr (str ''Dawn'')), (''description'', PStr []),
          (''status'', PStr (str ''active'')), (''priority'', PStr (str ''medium'')),
          (''protocol_id'', PNone), (''assigned_entity'', PStr []),
          (''target_location'', PStr []), (''objectives'', PList []),
          (''progress_percentage'', PDecimal 0), (''estimated_completion'', PNone),
          (''actual_completion'', PDatetime 86400), (''created_at'', PDatetime 0),
          (''started_at'', PNone), (''mission_metadata'', PDict [])]
   \<and> construct no_conversion Mission 0
     [''title'' \<mapsto> PStr (str ''Dawn''), ''status'' \<mapsto> PStr (str ''active''),
      ''actual_completion'' \<mapsto> PDatetime 86400]
   = Inr [(''id'', PNone), (''title'', PStr (str ''Dawn'')), (''description'', PStr []),
          (''status'', PStr (str ''active'')), (''priority'', PStr (str ''medium'')),
          (''protocol_id'', PNone), (''assigned_entity'', PStr []),
          (''target_location'', PStr []), (''objectives'', PList []),
          (''progress_percentage'', PDecimal 0), (''estimated_completion'', PNone),
          (''actual_completion'', PDatetime 86400), (''created_at'', PDatetime 0),
          (''started_at'', PNone), (''mission_metadata'', PDict [])]"
  by (simp add: validate_unfold construct_def table_construct_def field_init_def
      Mission_def MissionPriority_def MissionStatus_def)

section \<open>References to parent records\<close>

lemma resolves_id:
  "resolves db ''transformation_protocols.id'' v \<longleftrightarrow>
     (\<exists>p \<in> set (db ''transformation_protocols''). map_of p ''id'' = Some v)"
  "resolves db ''missions.id'' v \<longleftrightarrow> (\<exists>p \<in> set (db ''missions''). map_of p ''id'' = Some v)"
  "resolves db ''quantum_shields.id'' v \<longleftrightarrow>
     (\<exists>p \<in> set (db ''quantum_shields''). map_of p ''id'' = Some v)"
  "resolves db ''glyphs.id'' v \<longleftrightarrow> (\<exists>p \<in> set (db ''glyphs''). map_of p ''id'' = Some v)"
  by (simp_all add: resolves_def fk_table_def fk_column_def list_ex_iff)

lemma reference_errors_TransformationStep:
  "reference_errors db TransformationStep r =
     reference_error db r
       (''protocol_id'', TInt, Field'\<lparr>foreign_key := Some ''transformation_protocols.id''\<rparr>) @
     reference_error db r
       (''glyph_id'', TOptional TInt,
        Field'\<lparr>default' := Default PNone, foreign_key := Some ''glyphs.id''\<rparr>)"
  by (simp add: reference_errors_def TransformationStep_def reference_error_def Field'_def)

lemma reference_errors_MissionLogEntry:
  "reference_errors db MissionLogEntry r =
     reference_error db r (''mission_id'', TInt, Field'\<lparr>foreign_key := Some ''missions.id''\<rparr>)"
  by (simp add: reference_errors_def MissionLogEntry_def reference_error_def Field'_def)

lemma reference_errors_HealingModule:
  "reference_errors db HealingModule r =
     reference_error db r
       (''shield_id'', TInt, Field'\<lparr>foreign_key := Some ''quantum_shields.id''\<rparr>)"
  by (simp add: reference_errors_def HealingModule_def reference_error_def Field'_def)

lemma validated_int_field:
  assumes "model_validate lax cls now kw = Inr r" "distinct (map fst (model_fields cls))"
    and "(f, TInt, fi) \<in> set (model_fields cls)" "default' fi = PydanticUndefined"
  shows "\<exists>n. map_of r f = Some (PInt n)"
proof -
  from assms(1) have e: "validation_errors lax cls now kw = []"
    and r: "r = validated_data lax cls now kw"
    by (simp_all add: model_validate_Inr_iff)
  from e assms(3) obtain v where v: "validate_field lax now TInt fi (kw f) = Inr v"
    unfolding validation_errors_Nil_iff by blast
  with assms(4) obtain u where "check_type lax TInt u = Inr v"
    by (cases "kw f") (auto simp: validate_field_def split: sum.splits if_splits)
  then obtain n where "v = PInt n"
    using check_type_TInt by blast
  moreover have "map_of r f = Some v"
    unfolding r using map_of_validated_data[OF assms(2,3), where lax = lax and now = now and kw = kw and v = v] v by simp
  ultimately show ?thesis by simp
qed

lemma validated_default_field:
  assumes "model_validate lax cls now kw = Inr r" "distinct (map fst (model_fields cls))"
    and "(f, ty, fi) \<in> set (model_fields cls)" "default' fi = Default v" "kw f = None"
  shows "map_of r f = Some v"
proof -
  from assms(1) have r: "r = validated_data lax cls now kw"
    by (simp add: model_validate_Inr_iff)
  have "validate_field lax now ty fi (kw f) = Inr v"
    using assms(4,5) by (simp add: validate_field_def)
  then show ?thesis
    unfolding r using map_of_validated_data[OF assms(2,3), where lax = lax and now = now and kw = kw and v = v] by simp
qed

lemma missing_parent_rejected:
  assumes "(cls, f, t) \<in> set required_references"
    and v: "model_validate lax cls now kw = Inr r"
    and no: "\<forall>p \<in> set (db t). map_of p ''id'' \<noteq> map_of r f"
  shows "create lax db cls now kw = Inl (ReferenceError f)"
proof -
  consider (step) "cls = TransformationStep" "f = ''protocol_id''" "t = ''transformation_protocols''"
    | (entry) "cls = MissionLogEntry" "f = ''mission_id''" "t = ''missions''"
    | (module) "cls = HealingModule" "f = ''shield_id''" "t = ''quantum_shields''"
    using assms(1) unfolding required_references_def list.set by blast
  then show ?thesis
  proof cases
    case step
    let ?fi = "Field'\<lparr>foreign_key := Some ''transformation_protocols.id''\<rparr>"
    have d: "(''protocol_id'', TInt, ?fi) \<in> set (model_fields TransformationStep)"
      by (simp add: TransformationStep_def)
    obtain n where n: "map_of r ''protocol_id'' = Some (PInt n)"
      using validated_int_field[OF v[unfolded step] distinct_TransformationStep d]
      by (auto simp: Field'_def)
    have "\<not> resolves db ''transformation_protocols.id'' (PInt n)"
      using no n step by (simp add: resolves_id)
    then have "reference_error db r (''protocol_id'', TInt, ?fi) = [''protocol_id'']"
      using n by (simp add: reference_error_def)
    then obtain fs where "reference_errors db TransformationStep r = ''protocol_id'' # fs"
      by (simp add: reference_errors_TransformationStep)
    then show ?thesis
      using v step by (simp add: create_def add_def entity_tablename)
  next
    case entry
    let ?fi = "Field'\<lparr>foreign_key := Some ''missions.id''\<rparr>"
    have d: "(''mission_id'', TInt, ?fi) \<in> set (model_fields MissionLogEntry)"
      by (simp add: MissionLogEntry_def)
    obtain n where n: "map_of r ''mission_id'' = Some (PInt n)"
      using validated_int_field[OF v[unfolded entry] distinct_MissionLogEntry d]
      by (auto simp: Field'_def)
    have "\<not> resolves db ''missions.id'' (PInt n)"
      using no n entry by (simp add: resolves_id)
    then have "reference_error db r (''mission_id'', TInt, ?fi) = [''mission_id'']"
      using n by (simp add: reference_error_def)
    then have "reference_errors db MissionLogEntry r = [''mission_id'']"
      by (simp add: reference_errors_MissionLogEntry)
    then show ?thesis
      using v entry by (simp add: create_def add_def entity_tablename)
  next
    case module
    let ?fi = "Field'\<lparr>foreign_key := Some ''quantum_shields.id''\<rparr>"
    have d: "(''shield_id'', TInt, ?fi) \<in> set (model_fields HealingModule)"
      by (simp add: HealingModule_def)
    obtain n where n: "map_of r ''shield_id'' = Some (PInt n)"
      using validated_int_field[OF v[unfolded module] distinct_HealingModule d]
      by (auto simp: Field'_def)
    have "\<not> resolves db ''quantum_shields.id'' (PInt n)"
      using no n module by (simp add: resolves_id)
    then have "reference_error db r (''shield_id'', TInt, ?fi) = [''shield_id'']"
      using n by (simp add: reference_error_def)
    then have "reference_errors db HealingModule r = [''shield_id'']"
      by (simp add: reference_errors_HealingModule)
    then show ?thesis
      using v module by (simp add: create_def add_def entity_tablename)
  qed
qed

lemma step_without_glyph_accepted:
  assumes v: "model_validate lax TransformationStep now kw = Inr r"
    and g: "kw ''glyph_id'' = None" and i: "kw ''id'' = None"
    and p: "\<exists>p \<in> set (db ''transformation_protocols''). map_of p ''id'' = map_of r ''protocol_id''"
  shows "\<exists>db' r'. create lax db TransformationStep now kw = Inr (db', r')
     \<and> db' ''transformation_steps'' = db ''transformation_steps'' @ [r']
     \<and> map_of r' ''protocol_id'' = map_of r ''protocol_id''
     \<and> map_of r' ''glyph_id'' = Some PNone"
proof -
  let ?pfi = "Field'\<lparr>foreign_key := Some ''transformation_protocols.id''\<rparr>"
  let ?gfi = "Field'\<lparr>default' := Default PNone, foreign_key := Some ''glyphs.id''\<rparr>"
  let ?ifi = "Field'\<lparr>default' := Default PNone, primary_key := True\<rparr>"
  let ?rows = "db ''transformation_steps''"
  let ?r' = "map (\<lambda>(n, x). if n = ''id'' then (n, PInt (fresh_id ?rows ''id'')) else (n, x)) r"
  have pd: "(''protocol_id'', TInt, ?pfi) \<in> set (model_fields TransformationStep)"
    and gd: "(''glyph_id'', TOptional TInt, ?gfi) \<in> set (model_fields TransformationStep)"
    and idd: "(''id'', TOptional TInt, ?ifi) \<in> set (model_fields TransformationStep)"
    by (simp_all add: TransformationStep_def)
  obtain n where n: "map_of r ''protocol_id'' = Some (PInt n)"
    using validated_int_field[OF v distinct_TransformationStep pd] by (auto simp: Field'_def)
  have gl: "map_of r ''glyph_id'' = Some PNone"
    by (rule validated_default_field[OF v distinct_TransformationStep gd _ g]) simp
  have id: "map_of r ''id'' = Some PNone"
    by (rule validated_default_field[OF v distinct_TransformationStep idd _ i]) simp
  have "resolves db ''transformation_protocols.id'' (PInt n)"
    using p n by (simp add: resolves_id)
  then have "reference_error db r (''protocol_id'', TInt, ?pfi) = []"
    using n by (simp add: reference_error_def)
  moreover have "reference_error db r (''glyph_id'', TOptional TInt, ?gfi) = []"
    using gl by (simp add: reference_error_def)
  ultimately have refs: "reference_errors db TransformationStep r = []"
    by (simp add: reference_errors_TransformationStep)
  have pk: "primary_keys TransformationStep = [''id'']"
    by (simp add: primary_keys_def TransformationStep_def Field'_def)
  have key: "assign_key ?rows ''id'' r = Inr ?r'"
    using id by (simp add: assign_key_def)
  have c: "create lax db TransformationStep now kw =
      Inr (db(''transformation_steps'' := ?rows @ [?r']), ?r')"
    using v by (simp add: create_def add_def entity_tablename refs pk key)
  have other: "map_of ?r' k = map_of r k" if "k \<noteq> ''id''" for k
    using that by (induction r) auto
  show ?thesis
    using c gl other[of "''protocol_id''"] other[of "''glyph_id''"] by simp
qed

text \<open>
  C5. With the tables kept as section 6 of the spec asks: creating a
  TransformationStep, a MissionLogEntry or a HealingModule whose data are valid and
  whose \<^verbatim>\<open>protocol_id\<close>, \<^verbatim>\<open>mission_id\<close> or \<^verbatim>\<open>shield_id\<close> is the identifier of no record of
  the parent table fails with a ReferenceError that names the field. Creating a
  TransformationStep whose data are valid, whose \<^verbatim>\<open>protocol_id\<close> is the identifier of a
  stored protocol and which is given no \<^verbatim>\<open>glyph_id\<close> (and no identifier of its own)
  succeeds: the step is appended to its table with \<^verbatim>\<open>glyph_id\<close> \<^verbatim>\<open>None\<close>.
\<close>

theorem required_reference_enforced:
  "((cls, f, t) \<in> set required_references \<and> model_validate lax cls now kw = Inr r
      \<and> (\<forall>p \<in> set (db t). map_of p ''id'' \<noteq> map_of r f)
     \<longrightarrow> create lax db cls now kw = Inl (ReferenceError f))
   \<and> (model_validate lax TransformationStep now kw' = Inr r'
      \<and> kw' ''glyph_id'' = None \<and> kw' ''id'' = None
      \<and> (\<exists>p \<in> set (db ''transformation_protocols''). map_of p ''id'' = map_of r' ''protocol_id'')
     \<longrightarrow> (\<exists>db' s. create lax db TransformationStep now kw' = Inr (db', s)
           \<and> db' ''transformation_steps'' = db ''transformation_steps'' @ [s]
           \<and> map_of s ''protocol_id'' = map_of r' ''protocol_id''
           \<and> map_of s ''glyph_id'' = Some PNone))"
  using missing_parent_rejected[where cls = cls and f = f and t = t and lax = lax and now = now and kw = kw and r = r and db = db]
    step_without_glyph_accepted[where lax = lax and now = now and kw = kw' and r = r' and db = db]
  by blast

theorem required_reference_enforced_witness:
  "create no_conversion
     ((\<lambda>t. [])(''transformation_protocols'' :=
        [[(''id'', PInt 1), (''name'', PStr (str ''Solar Cleansing'')), (''description'', PStr []),
          (''duration_minutes'', PInt 30), (''energy_cost'', PDecimal 10),
          (''success_rate'', PDecimal 90), (''requirements'', PList []), (''effects'', PDict []),
          (''is_active'', PBool True), (''created_at'', PDatetime 0),
          (''last_modified'', PDatetime 0)]]))
     TransformationStep 0
     [''protocol_id'' \<mapsto> PInt 2, ''step_order'' \<mapsto> PInt 1,
      ''instruction'' \<mapsto> PStr (str ''Align crystals'')]
   = Inl (ReferenceError ''protocol_id'')
   \<and> (\<exists>db' s. create no_conversion
     ((\<lambda>t. [])(''transformation_protocols'' :=
        [[(''id'', PInt 1), (''name'', PStr (str ''Solar Cleansing'')), (''description'', PStr []),
          (''duration_minutes'', PInt 30), (''energy_cost'', PDecimal 10),
          (''success_rate'', PDecimal 90), (''requirements'', PList []), (''effects'', PDict []),
          (''is_active'', PBool True), (''created_at'', PDatetime 0),
          (''last_modified'', PDatetime 0)]]))
     TransformationStep 0
     [''protocol_id'' \<mapsto> PInt 1, ''step_order'' \<mapsto> PInt 1,
      ''instruction'' \<mapsto> PStr (str ''Align crystals'')]
       = Inr (db', s)
     \<and> db' ''transformation_steps'' = [s]
     \<and> map_of s ''protocol_id'' = Some (PInt 1)
     \<and> map_of s ''glyph_id'' = Some PNone)"
proof -
  let ?db = "(\<lambda>t. [])(''transformation_protocols'' :=
        [[(''id'', PInt 1), (''name'', PStr (str ''Solar Cleansing'')), (''description'', PStr []),
          (''duration_minutes'', PInt 30), (''energy_cost'', PDecimal 10),
          (''success_rate'', PDecimal 90), (''requirements'', PList []), (''effects'', PDict []),
          (''is_active'', PBool True), (''created_at'', PDatetime 0),
          (''last_modified'', PDatetime 0)]])"
  let ?bad = "[''protocol_id'' \<mapsto> PInt 2, ''step_order'' \<mapsto> PInt 1,
      ''instruction'' \<mapsto> PStr (str ''Align crystals'')]"
  let ?good = "[''protocol_id'' \<mapsto> PInt 1, ''step_order'' \<mapsto> PInt 1,
      ''instruction'' \<mapsto> PStr (str ''Align crystals'')]"
  let ?rbad = "[(''id'', PNone), (''protocol_id'', PInt 2), (''glyph_id'', PNone),
          (''step_order'', PInt 1), (''instruction'', PStr (str ''Align crystals'')),
          (''duration_seconds'', PInt 300), (''parameters'', PDict [])]"
  let ?rgood = "[(''id'', PNone), (''protocol_id'', PInt 1), (''glyph_id'', PNone),
          (''step_order'', PInt 1), (''instruction'', PStr (str ''Align crystals'')),
          (''duration_seconds'', PInt 300), (''parameters'', PDict [])]"
  have m: "(TransformationStep, ''protocol_id'', ''transformation_protocols'')
      \<in> set required_references"
    by (simp add: required_references_def)
  have vb: "model_validate no_conversion TransformationStep 0 ?bad = Inr ?rbad"
    by (simp add: validate_unfold TransformationStep_def)
  have vg: "model_validate no_conversion TransformationStep 0 ?good = Inr ?rgood"
    by (simp add: validate_unfold TransformationStep_def)
  have absent: "\<forall>p \<in> set (?db ''transformation_protocols''). map_of p ''id'' \<noteq> map_of ?rbad ''protocol_id''"
    by simp
  have present: "\<exists>p \<in> set (?db ''transformation_protocols''). map_of p ''id'' = map_of ?rgood ''protocol_id''"
    by simp
  have g: "?good ''glyph_id'' = None" "?good ''id'' = None"
    by simp_all
  from required_reference_enforced[where cls = TransformationStep and f = "''protocol_id''"
      and t = "''transformation_protocols''" and lax = no_conversion and now = 0
      and kw = ?bad and r = ?rbad and db = ?db and kw' = ?good and r' = ?rgood]
    m vb vg absent present g
  show ?thesis
    by simp
qed

section \<open>Updating one field of a Mission\<close>

lemma map_of_patch:
  "map_of (map (patch_field u) r) g =
     map_option (\<lambda>v. case map_of u g of Some x \<Rightarrow> if x = PNone then v else x | None \<Rightarrow> v)
       (map_of r g)"
  by (induction r) (auto simp: patch_field_def split: option.splits)

lemma map_fst_patch: "map fst (map (patch_field u) r) = map fst r"
  by (induction r) (auto simp: patch_field_def split: option.splits)

lemma MissionUpdate_defaults:
  "list_all (\<lambda>(f, ty, fi). default' fi = Default PNone) (model_fields MissionUpdate)"
  by (simp add: MissionUpdate_def)

lemma MissionUpdate_unset:
  assumes "kw g = None"
  shows "map_of (validated_data lax MissionUpdate now kw) g = None
    \<or> map_of (validated_data lax MissionUpdate now kw) g = Some PNone"
proof (cases "g \<in> set (field_names MissionUpdate)")
  case True
  then obtain ty fi where d: "(g, ty, fi) \<in> set (model_fields MissionUpdate)"
    by (auto simp: field_names_def)
  with MissionUpdate_defaults have "default' fi = Default PNone"
    by (auto simp: list_all_iff)
  with assms have "validate_field lax now ty fi (kw g) = Inr PNone"
    by (simp add: validate_field_def)
  then have "map_of (validated_data lax MissionUpdate now kw) g = Some PNone"
    using map_of_validated_data[OF distinct_MissionUpdate d, where lax = lax and now = now and kw = kw and v = PNone] by simp
  then show ?thesis ..
next
  case False
  then have "map_of (validated_data lax MissionUpdate now kw) g = None"
    by (rule map_of_validated_data_None)
  then show ?thesis ..
qed

text \<open>
  C6. With the update taken as the partial patch of section 3 of the spec: when a
  MissionUpdate that sets exactly one field \<open>f\<close> is applied to a stored Mission, the
  Mission keeps its fields, and every field other than \<open>f\<close> keeps the value it had.
\<close>

theorem update_one_field_frame:
  assumes "dom kw = {f}" and "apply_update lax MissionUpdate now m kw = Inr m'"
  shows "map fst m' = map fst m \<and> (\<forall>g. g \<noteq> f \<longrightarrow> map_of m' g = map_of m g)"
proof -
  let ?u = "validated_data lax MissionUpdate now kw"
  from assms(2) have m': "m' = map (patch_field ?u) m"
    by (auto simp: apply_update_def model_validate_def split: if_splits)
  have "map_of m' g = map_of m g" if "g \<noteq> f" for g
  proof -
    from that assms(1) have "kw g = None"
      by auto
    with MissionUpdate_unset[where kw = kw and g = g and lax = lax and now = now] show ?thesis
      unfolding m' map_of_patch by (cases "map_of m g") auto
  qed
  then have "\<forall>g. g \<noteq> f \<longrightarrow> map_of m' g = map_of m g"
    by blast
  moreover have "map fst m' = map fst m"
    unfolding m' by (rule map_fst_patch)
  ultimately show ?thesis
    by blast
qed

theorem update_one_field_frame_witness:
  "apply_update no_conversion MissionUpdate 9
     [(''id'', PInt 1), (''title'', PStr (str ''Dawn'')), (''description'', PStr []),
      (''status'', PStr (str ''pending'')), (''priority'', PStr (str ''medium'')),
      (''protocol_id'', PNone), (''assigned_entity'', PStr []),
      (''target_location'', PStr []), (''objectives'', PList [PStr (str ''scout'')]),
      (''progress_percentage'', PDecimal 0), (''estimated_completion'', PNone),
      (''actual_completion'', PNone), (''created_at'', PDatetime 5),
      (''started_at'', PNone), (''mission_metadata'', PDict [])]
     [''status'' \<mapsto> PStr (str ''completed'')]
   = Inr [(''id'', PInt 1), (''title'', PStr (str ''Dawn'')), (''description'', PStr []),
      (''status'', PStr (str ''completed'')), (''priority'', PStr (str ''medium'')),
      (''protocol_id'', PNone), (''assigned_entity'', PStr []),
      (''target_location'', PStr []), (''objectives'', PList [PStr (str ''scout'')]),
      (''progress_percentage'', PDecimal 0), (''estimated_completion'', PNone),
      (''actual_completion'', PNone), (''created_at'', PDatetime 5),
      (''started_at'', PNone), (''mission_metadata'', PDict [])]
   \<and> map_of [(''id'', PInt 1), (''title'', PStr (str ''Dawn'')), (''description'', PStr []),
          (''status'', PStr (str ''completed'')), (''priority'', PStr (str ''medium'')),
          (''protocol_id'', PNone), (''assigned_entity'', PStr []),
          (''target_location'', PStr []), (''objectives'', PList [PStr (str ''scout'')]),
          (''progress_percentage'', PDecimal 0), (''estimated_completion'', PNone),
          (''actual_completion'', PNone), (''created_at'', PDatetime 5),
          (''started_at'', PNone), (''mission_metadata'', PDict [])] ''progress_percentage''
     = map_of [(''id'', PInt 1), (''title'', PStr (str ''Dawn'')), (''description'', PStr []),
          (''status'', PStr (str ''pending'')), (''priority'', PStr (str ''medium'')),
          (''protocol_id'', PNone), (''assigned_entity'', PStr []),
          (''target_location'', PStr []), (''objectives'', PList [PStr (str ''scout'')]),
          (''progress_percentage'', PDecimal 0), (''estimated_completion'', PNone),
          (''actual_completion'', PNone), (''created_at'', PDatetime 5),
          (''started_at'', PNone), (''mission_metadata'', PDict [])] ''progress_percentage''
   \<and> map_of [(''id'', PInt 1), (''title'', PStr (str ''Dawn'')), (''description'', PStr []),
          (''status'', PStr (str ''completed'')), (''priority'', PStr (str ''medium'')),
          (''protocol_id'', PNone), (''assigned_entity'', PStr []),
          (''target_location'', PStr []), (''objectives'', PList [PStr (str ''scout'')]),
          (''progress_percentage'', PDecimal 0), (''estimated_completion'', PNone),
          (''actual_completion'', PNone), (''created_at'', PDatetime 5),
          (''started_at'', PNone), (''mission_metadata'', PDict [])] ''objectives''
     = map_of [(''id'', PInt 1), (''title'', PStr (str ''Dawn'')), (''description'', PStr []),
          (''status'', PStr (str ''pending'')), (''priority'', PStr (str ''medium'')),
          (''protocol_id'', PNone), (''assigned_entity'', PStr []),
          (''target_location'', PStr []), (''objectives'', PList [PStr (str ''scout'')]),
          (''progress_percentage'', PDecimal 0), (''estimated_completion'', PNone),
          (''actual_completion'', PNone), (''created_at'', PDatetime 5),
          (''started_at'', PNone), (''mission_metadata'', PDict [])] ''objectives''"
proof -
  let ?m = "[(''id'', PInt 1), (''title'', PStr (str ''Dawn'')), (''description'', PStr []),
      (''status'', PStr (str ''pending'')), (''priority'', PStr (str ''medium'')),
      (''protocol_id'', PNone), (''assigned_entity'', PStr []),
      (''target_location'', PStr []), (''objectives'', PList [PStr (str ''scout'')]),
      (''progress_percentage'', PDecimal 0), (''estimated_completion'', PNone),
      (''actual_completion'', PNone), (''created_at'', PDatetime 5),
      (''started_at'', PNone), (''mission_metadata'', PDict [])]"
  let ?m' = "[(''id'', PInt 1), (''title'', PStr (str ''Dawn'')), (''description'', PStr []),
      (''status'', PStr (str ''completed'')), (''priority'', PStr (str ''medium'')),
      (''protocol_id'', PNone), (''assigned_entity'', PStr []),
      (''target_location'', PStr []), (''objectives'', PList [PStr (str ''scout'')]),
      (''progress_percentage'', PDecimal 0), (''estimated_completion'', PNone),
      (''actual_completion'', PNone), (''created_at'', PDatetime 5),
      (''started_at'', PNone), (''mission_metadata'', PDict [])]"
  let ?kw = "[''status'' \<mapsto> PStr (str ''completed'')]"
  let ?u = "[(''title'', PNone), (''description'', PNone), (''status'', PStr (str ''completed'')),
      (''priority'', PNone), (''progress_percentage'', PNone), (''assigned_entity'', PNone),
      (''target_location'', PNone), (''objectives'', PNone)]"
  have d: "dom ?kw = {''status''}"
    by simp
  have u: "model_validate no_conversion MissionUpdate 9 ?kw = Inr ?u"
    by (simp add: validate_unfold MissionUpdate_def MissionStatus_def)
  have p: "map (patch_field ?u) ?m = ?m'"
    by (simp add: patch_field_def str_def)
  have a: "apply_update no_conversion MissionUpdate 9 ?m ?kw = Inr ?m'"
    unfolding apply_update_def u sum.case p ..
  from update_one_field_frame[OF d a]
  have "map_of ?m' ''progress_percentage'' = map_of ?m ''progress_percentage''"
    and "map_of ?m' ''objectives'' = map_of ?m ''objectives''"
    by simp_all
  with a show ?thesis
    by (simp only: simp_thms)
qed

section \<open>Enum-valued fields\<close>

lemma enum_field_decl:
  assumes "(cls, f, E) \<in> set enum_fields"
  shows "\<exists>fi. (f, TEnum E, fi) \<in> set (model_fields cls) \<and> max_length fi = None"
proof -
  let ?Q = "\<lambda>cls f E. \<exists>fi. (f, TEnum E, fi) \<in> set (model_fields cls) \<and> max_length fi = None"
  have 1: "?Q Glyph ''category'' GlyphCategory"
    by (simp add: Glyph_def Field'_def)
  have 2: "?Q Mission ''status'' MissionStatus"
    by (simp add: Mission_def Field'_def)
  have 3: "?Q Mission ''priority'' MissionPriority"
    by (simp add: Mission_def Field'_def)
  have 4: "?Q EmotionalResonance ''current_state'' EmotionalState"
    by (simp add: EmotionalResonance_def Field'_def)
  have 5: "?Q QuantumShield ''status'' ShieldStatus"
    by (simp add: QuantumShield_def Field'_def)
  have "\<forall>(cls, f, E) \<in> set enum_fields. ?Q cls f E"
    unfolding enum_fields_def list.set ball_simps prod.case
    using 1 2 3 4 5 by blast
  with assms show ?thesis by blast
qed

lemma enum_field_distinct:
  assumes "(cls, f, E) \<in> set enum_fields"
  shows "distinct (map fst (model_fields cls))"
proof -
  have "\<forall>(cls, f, E) \<in> set enum_fields. distinct (map fst (model_fields cls))"
    unfolding enum_fields_def list.set ball_simps prod.case
    using distinct_entities by blast
  with assms show ?thesis by blast
qed

lemma enum_field_table:
  assumes "(cls, f, E) \<in> set enum_fields"
  shows "tablename cls \<noteq> None"
proof -
  have "\<forall>(cls, f, E) \<in> set enum_fields. tablename cls \<noteq> None"
    unfolding enum_fields_def list.set ball_simps prod.case
    by (simp add: entity_tablename)
  with assms show ?thesis by blast
qed

text \<open>
  C7, as the module has it. The owners of the five enum-valued fields are \<^verbatim>\<open>table=True\<close>
  classes. When the data of the owning entity are validated, a value that is not a
  member of the field's enum class fails with a ValidationError that reports the field
  under \<open>enum\<close>, so no record is made and no default stands in for the value; a member
  is stored as it is given, provided no other field is in error. Constructing the
  owning entity never fails and keeps the value as it is given, member or not: the
  value is neither rejected nor replaced by a default.
\<close>

theorem enum_field_members_only:
  assumes "(cls, f, E) \<in> set enum_fields"
  shows "(v \<notin> set (members E) \<longrightarrow>
            (\<exists>errs. model_validate lax cls now (kw(f \<mapsto> v)) = Inl (ValidationError errs)
               \<and> (f, enum) \<in> set errs)
            \<and> (\<forall>r. model_validate lax cls now (kw(f \<mapsto> v)) \<noteq> Inr r))
       \<and> (v \<in> set (members E)
            \<and> (\<forall>g e. (g, e) \<in> set (validation_errors lax cls now kw) \<longrightarrow> g = f) \<longrightarrow>
            (\<exists>r. model_validate lax cls now (kw(f \<mapsto> v)) = Inr r \<and> map_of r f = Some v))
       \<and> (\<exists>r. construct lax cls now (kw(f \<mapsto> v)) = Inr r \<and> map_of r f = Some v)"
proof -
  obtain fi where decl: "(f, TEnum E, fi) \<in> set (model_fields cls)" and ml: "max_length fi = None"
    using enum_field_decl[OF assms] by blast
  note dist = enum_field_distinct[OF assms]
  note v = validate_enum[OF ml, where lax = lax and now = now and E = E and v = v]
  have bad: "\<exists>errs. model_validate lax cls now (kw(f \<mapsto> v)) = Inl (ValidationError errs)
      \<and> (f, enum) \<in> set errs" if "v \<notin> set (members E)"
    by (rule set_field_fails[OF decl, where es = "[enum]"]) (use v that in simp_all)
  have good: "\<exists>r. model_validate lax cls now (kw(f \<mapsto> v)) = Inr r \<and> map_of r f = Some v"
    if "v \<in> set (members E)" "\<forall>g e. (g, e) \<in> set (validation_errors lax cls now kw) \<longrightarrow> g = f"
    by (rule set_field_succeeds[OF dist decl _ that(2)]) (use v that in simp)
  have made: "\<exists>r. construct lax cls now (kw(f \<mapsto> v)) = Inr r \<and> map_of r f = Some v"
    by (rule construct_table_given[OF enum_field_table[OF assms] decl])
  from bad good made show ?thesis by fastforce
qed

theorem enum_field_members_only_witness:
  "(\<exists>errs. model_validate no_conversion Mission 0
       [''title'' \<mapsto> PStr (str ''Dawn''), ''status'' \<mapsto> PStr (str ''done'')]
         = Inl (ValidationError errs) \<and> (''status'', enum) \<in> set errs)
   \<and> (\<exists>r. model_validate no_conversion Mission 0
       [''title'' \<mapsto> PStr (str ''Dawn''), ''status'' \<mapsto> PStr (str ''completed'')] = Inr r
         \<and> map_of r ''status'' = Some (PStr (str ''completed'')))
   \<and> (\<exists>r. construct no_conversion Mission 0
       [''title'' \<mapsto> PStr (str ''Dawn''), ''status'' \<mapsto> PStr (str ''completed'')] = Inr r
         \<and> map_of r ''status'' = Some (PStr (str ''completed'')))"
proof -
  let ?kw = "[''title'' \<mapsto> PStr (str ''Dawn'')]"
  have m: "(Mission, ''status'', MissionStatus) \<in> set enum_fields"
    by (simp add: enum_fields_def)
  have no: "PStr (str ''done'') \<notin> set (members MissionStatus)"
    by (simp add: members_def MissionStatus_def str_def)
  have yes: "PStr (str ''completed'') \<in> set (members MissionStatus)"
    by (simp add: members_def MissionStatus_def str_def)
  have ok: "\<forall>g e. (g, e) \<in> set (validation_errors no_conversion Mission 0 ?kw) \<longrightarrow> g = ''status''"
    by (simp add: validate_unfold Mission_def MissionStatus_def MissionPriority_def)
  show ?thesis
    using enum_field_members_only[OF m, where v = "PStr (str ''done'')" and lax = no_conversion
        and now = 0 and kw = ?kw]
      enum_field_members_only[OF m, where v = "PStr (str ''completed'')" and lax = no_conversion
        and now = 0 and kw = ?kw] no yes ok
    by simp
qed

text \<open>
  C7 as stated does not hold: constructing a Mission with the status \<^verbatim>\<open>done\<close>, which is
  no member of MissionStatus, raises nothing and yields a Mission that holds \<^verbatim>\<open>done\<close>.
\<close>

theorem enum_construct_counterexample:
  "construct no_conversion Mission 0
     [''title'' \<mapsto> PStr (str ''Dawn''), ''status'' \<mapsto> PStr (str ''done'')]
   = Inr [(''id'', PNone), (''title'', PStr (str ''Dawn'')), (''description'', PStr []),
          (''status'', PStr (str ''done'')), (''priority'', PStr (str ''medium'')),
          (''protocol_id'', PNone), (''assigned_entity'', PStr []),
          (''target_location'', PStr []), (''objectives'', PList []),
          (''progress_percentage'', PDecimal 0), (''estimated_completion'', PNone),
          (''actual_completion'', PNone), (''created_at'', PDatetime 0),
          (''started_at'', PNone), (''mission_metadata'', PDict [])]
   \<and> PStr (str ''done'') \<notin> set (members MissionStatus)"
  by (simp add: construct_def table_construct_def field_init_def Mission_def Field'_def
      member_def members_def MissionStatus_def MissionPriority_def str_def)

section \<open>String fields with a maximum length\<close>

lemma module_classes_length_bounds:
  assumes "(name, cls) \<in> set module_classes"
  shows "length_bounds_on_str cls"
proof -
  have e: "length_bounds_on_str Glyph" "length_bounds_on_str TransformationProtocol"
    "length_bounds_on_str TransformationStep" "length_bounds_on_str Mission"
    "length_bounds_on_str MissionLogEntry" "length_bounds_on_str EmotionalResonance"
    "length_bounds_on_str QuantumShield" "length_bounds_on_str HealingModule"
    by (simp_all add: length_bounds_on_str_def Field'_def Glyph_def TransformationProtocol_def
        TransformationStep_def Mission_def MissionLogEntry_def EmotionalResonance_def
        QuantumShield_def HealingModule_def)
  have s: "length_bounds_on_str GlyphCreate" "length_bounds_on_str GlyphUpdate"
    "length_bounds_on_str TransformationProtocolCreate" "length_bounds_on_str MissionCreate"
    "length_bounds_on_str MissionUpdate" "length_bounds_on_str EmotionalResonanceCreate"
    "length_bounds_on_str QuantumShieldCreate" "length_bounds_on_str QuantumShieldUpdate"
    "length_bounds_on_str HealingModuleCreate"
    by (simp_all add: length_bounds_on_str_def Field'_def GlyphCreate_def GlyphUpdate_def
        TransformationProtocolCreate_def MissionCreate_def MissionUpdate_def
        EmotionalResonanceCreate_def QuantumShieldCreate_def QuantumShieldUpdate_def
        HealingModuleCreate_def)
  have "\<forall>(name, cls) \<in> set module_classes. length_bounds_on_str cls"
    unfolding module_classes_def list.set ball_simps prod.case
    using e s by blast
  with assms show ?thesis by blast
qed

lemma validate_str:
  assumes "ty = TStr \<or> ty = TOptional TStr" "max_length fi = Some n"
  shows "validate_field lax now ty fi (Some (PStr s)) =
    (if n < length s then Inl [string_too_long n] else Inr (PStr s))"
  using assms by (auto simp: validate_field_def length_errors_def)

text \<open>
  C8, as the module has it. For every class of the module and every field of it
  declared with a maximum length \<open>n\<close>: validation of the data of the class with a string
  of exactly \<open>n\<close> code points for the field succeeds and stores the string, provided no
  other field is in error, and validation with a string of \<open>n + 1\<close> code points fails
  with a ValidationError that reports the field under \<open>string_too_long n\<close>. Constructing
  a \<^verbatim>\<open>table=False\<close> class is that validation. Constructing a \<^verbatim>\<open>table=True\<close> class, which
  every entity is, never fails and stores the string given: it succeeds at \<open>n\<close> code
  points, and at \<open>n + 1\<close> as well.
\<close>

theorem max_length_boundary:
  assumes "(name, cls) \<in> set module_classes"
    and "(f, ty, fi) \<in> set (model_fields cls)" and "max_length fi = Some n"
  shows "(length s = n \<and> (\<forall>g e. (g, e) \<in> set (validation_errors lax cls now kw) \<longrightarrow> g = f) \<longrightarrow>
            (\<exists>r. model_validate lax cls now (kw(f \<mapsto> PStr s)) = Inr r \<and> map_of r f = Some (PStr s)))
       \<and> (length s = n + 1 \<longrightarrow>
            (\<exists>errs. model_validate lax cls now (kw(f \<mapsto> PStr s)) = Inl (ValidationError errs)
               \<and> (f, string_too_long n) \<in> set errs))
       \<and> (tablename cls = None \<longrightarrow>
            construct lax cls now (kw(f \<mapsto> PStr s)) = model_validate lax cls now (kw(f \<mapsto> PStr s)))
       \<and> (tablename cls \<noteq> None \<longrightarrow>
            (\<exists>r. construct lax cls now (kw(f \<mapsto> PStr s)) = Inr r \<and> map_of r f = Some (PStr s)))"
proof -
  note dist = module_classes_distinct[OF assms(1)]
  have "length_bounds_on_str cls"
    by (rule module_classes_length_bounds[OF assms(1)])
  with assms(2,3) have ty: "ty = TStr \<or> ty = TOptional TStr"
    by (auto simp: length_bounds_on_str_def list_all_iff)
  note v = validate_str[OF ty assms(3), where lax = lax and now = now and s = s]
  have good: "\<exists>r. model_validate lax cls now (kw(f \<mapsto> PStr s)) = Inr r \<and> map_of r f = Some (PStr s)"
    if "length s = n" "\<forall>g e. (g, e) \<in> set (validation_errors lax cls now kw) \<longrightarrow> g = f"
    by (rule set_field_succeeds[OF dist assms(2) _ that(2)]) (use v that in simp)
  have bad: "\<exists>errs. model_validate lax cls now (kw(f \<mapsto> PStr s)) = Inl (ValidationError errs)
      \<and> (f, string_too_long n) \<in> set errs" if "length s = n + 1"
    by (rule set_field_fails[OF assms(2), where es = "[string_too_long n]"]) (use v that in simp_all)
  have shape: "construct lax cls now (kw(f \<mapsto> PStr s)) = model_validate lax cls now (kw(f \<mapsto> PStr s))"
    if "tablename cls = None"
    using that by (rule construct_schema)
  have entity: "\<exists>r. construct lax cls now (kw(f \<mapsto> PStr s)) = Inr r \<and> map_of r f = Some (PStr s)"
    if "tablename cls \<noteq> None"
    using that assms(2) by (rule construct_table_given)
  from good bad shape entity show ?thesis by blast
qed

theorem max_length_boundary_witness:
  "(\<exists>r. model_validate no_conversion Glyph 0
       [''name'' \<mapsto> PStr (str ''ankh''), ''symbol'' \<mapsto> PStr (replicate 10 9775)] = Inr r
         \<and> map_of r ''symbol'' = Some (PStr (replicate 10 9775)))
   \<and> (\<exists>errs. model_validate no_conversion Glyph 0
       [''name'' \<mapsto> PStr (str ''ankh''), ''symbol'' \<mapsto> PStr (replicate 11 9775)]
         = Inl (ValidationError errs) \<and> (''symbol'', string_too_long 10) \<in> set errs)
   \<and> (\<exists>r. construct no_conversion Glyph 0
       [''name'' \<mapsto> PStr (str ''ankh''), ''symbol'' \<mapsto> PStr (replicate 10 9775)] = Inr r
         \<and> map_of r ''symbol'' = Some (PStr (replicate 10 9775)))
   \<and> (\<exists>errs. construct no_conversion GlyphCreate 0
       [''name'' \<mapsto> PStr (str ''ankh''), ''symbol'' \<mapsto> PStr (replicate 11 9775)]
         = Inl (ValidationError errs) \<and> (''symbol'', string_too_long 10) \<in> set errs)"
proof -
  let ?kw = "[''name'' \<mapsto> PStr (str ''ankh'')]"
  let ?fi = "Field'\<lparr>max_length := Some 10\<rparr>"
  have c: "(''Glyph'', Glyph) \<in> set module_classes"
    and cc: "(''GlyphCreate'', GlyphCreate) \<in> set module_classes"
    by (simp_all add: module_classes_def)
  have d: "(''symbol'', TStr, ?fi) \<in> set (model_fields Glyph)"
    by (simp add: Glyph_def)
  have dc: "(''symbol'', TStr, ?fi) \<in> set (model_fields GlyphCreate)"
    by (simp add: GlyphCreate_def)
  have m: "max_length ?fi = Some 10"
    by simp
  have ok: "\<forall>g e. (g, e) \<in> set (validation_errors no_conversion Glyph 0 ?kw) \<longrightarrow> g = ''symbol''"
    by (simp add: validate_unfold Glyph_def GlyphCategory_def)
  have t: "tablename Glyph \<noteq> None" "tablename GlyphCreate = None"
    by (simp_all add: entity_tablename schema_tablename)
  have l: "length (replicate 10 (9775::nat)) = 10" "length (replicate 11 (9775::nat)) = 10 + 1"
    by simp_all
  note at_max = max_length_boundary[OF c d m, where s = "replicate 10 9775"
      and lax = no_conversion and now = 0 and kw = ?kw]
  note over = max_length_boundary[OF c d m, where s = "replicate 11 9775"
      and lax = no_conversion and now = 0 and kw = ?kw]
  note shape = max_length_boundary[OF cc dc m, where s = "replicate 11 9775"
      and lax = no_conversion and now = 0 and kw = ?kw]
  note a1 = at_max[THEN conjunct1, rule_format, OF conjI[OF l(1) ok]]
  note a2 = over[THEN conjunct2, THEN conjunct1, rule_format, OF l(2)]
  note a3 = at_max[THEN conjunct2, THEN conjunct2, THEN conjunct2, rule_format, OF t(1)]
  note s1 = shape[THEN conjunct2, THEN conjunct1, rule_format, OF l(2)]
  note s2 = shape[THEN conjunct2, THEN conjunct2, THEN conjunct1, rule_format, OF t(2)]
  show ?thesis
    using a1 a2 a3 s1[folded s2] by (intro conjI)
qed

text \<open>
  C8 as stated does not hold: constructing a Glyph whose symbol has 11 code points,
  one more than the maximum length 10, raises nothing and yields a Glyph that holds the
  symbol.
\<close>

theorem max_length_construct_counterexample:
  "construct no_conversion Glyph 0
     [''name'' \<mapsto> PStr (str ''ankh''), ''symbol'' \<mapsto> PStr (replicate 11 9775)]
   = Inr [(''id'', PNone), (''name'', PStr (str ''ankh'')),
          (''symbol'', PStr (replicate 11 9775)),
          (''category'', PStr (str ''energy'')), (''power_level'', PDecimal 1),
          (''description'', PStr []), (''properties'', PDict []), (''is_active'', PBool True),
          (''discovered_at'', PDatetime 0), (''last_used'', PNone)]
   \<and> length (replicate 11 (9775::nat)) = 11"
  by (simp add: construct_def table_construct_def field_init_def Glyph_def Field'_def
      member_def GlyphCategory_def)

section \<open>A Mission made from a MissionCreate shape\<close>

text \<open>
  C9. MissionCreate has no field \<^verbatim>\<open>status\<close>, \<^verbatim>\<open>progress_percentage\<close> or
  \<^verbatim>\<open>actual_completion\<close>. Every input that MissionCreate accepts yields a Mission, and every
  Mission made from a MissionCreate shape has status \<^verbatim>\<open>pending\<close>, progress percentage 0
  and no actual completion: the defaults of the Mission entity.
\<close>

theorem mission_create_defaults:
  "''status'' \<notin> set (field_names MissionCreate)
   \<and> ''progress_percentage'' \<notin> set (field_names MissionCreate)
   \<and> ''actual_completion'' \<notin> set (field_names MissionCreate)
   \<and> (model_validate lax MissionCreate now kw = Inr d \<longrightarrow>
        (\<exists>m. create_from lax MissionCreate Mission now kw = Inr m))
   \<and> (create_from lax MissionCreate Mission now kw = Inr m \<longrightarrow>
        map_of m ''status'' = Some (PStr (str ''pending''))
        \<and> map_of m ''progress_percentage'' = Some (PDecimal 0)
        \<and> map_of m ''actual_completion'' = Some PNone)"
proof -
  have total: "\<exists>m. create_from lax MissionCreate Mission now kw = Inr m"
    if "model_validate lax MissionCreate now kw = Inr d"
  proof -
    from that have "validation_errors lax MissionCreate now kw = []"
      by (simp add: model_validate_Inr_iff)
    then show ?thesis
      by (rule create_from_total[OF distinct_MissionCreate distinct_Mission
            MissionCreate_mirrors(1) MissionCreate_defaults_valid Mission_required])
  qed
  have pending: "member MissionStatus ''PENDING'' = PStr (str ''pending'')"
    by (simp add: member_def MissionStatus_def)
  have "map_of m ''status'' = Some (PStr (str ''pending''))"
    if c: "create_from lax MissionCreate Mission now kw = Inr m"
    using create_from_default[OF distinct_Mission Mission_status_decl _ MissionCreate_hides(1) c]
    by (simp add: pending)
  moreover have "map_of m ''progress_percentage'' = Some (PDecimal 0)"
    if c: "create_from lax MissionCreate Mission now kw = Inr m"
    using create_from_default[OF distinct_Mission Mission_progress_decl _ MissionCreate_hides(2) c]
    by simp
  moreover have "map_of m ''actual_completion'' = Some PNone"
    if c: "create_from lax MissionCreate Mission now kw = Inr m"
    using create_from_default[OF distinct_Mission Mission_actual_completion_decl _
        MissionCreate_hides(3) c]
    by simp
  ultimately show ?thesis
    using total MissionCreate_hides by blast
qed

theorem mission_create_defaults_witness:
  "create_from no_conversion MissionCreate Mission 5
     [''title'' \<mapsto> PStr (str ''Dawn''), ''status'' \<mapsto> PStr (str ''active''),
      ''objectives'' \<mapsto> PList [PStr (str ''scout''), PStr (str ''report'')]]
   = Inr [(''id'', PNone), (''title'', PStr (str ''Dawn'')), (''description'', PStr []),
          (''status'', PStr (str ''pending'')), (''priority'', PStr (str ''medium'')),
          (''protocol_id'', PNone), (''assigned_entity'', PStr []),
          (''target_location'', PStr []),
          (''objectives'', PList [PStr (str ''scout''), PStr (str ''report'')]),
          (''progress_percentage'', PDecimal 0), (''estimated_completion'', PNone),
          (''actual_completion'', PNone), (''created_at'', PDatetime 5),
          (''started_at'', PNone), (''mission_metadata'', PDict [])]
   \<and> map_of [(''id'', PNone), (''title'', PStr (str ''Dawn'')), (''description'', PStr []),
          (''status'', PStr (str ''pending'')), (''priority'', PStr (str ''medium'')),
          (''protocol_id'', PNone), (''assigned_entity'', PStr []),
          (''target_location'', PStr []),
          (''objectives'', PList [PStr (str ''scout''), PStr (str ''report'')]),
          (''progress_percentage'', PDecimal 0), (''estimated_completion'', PNone),
          (''actual_completion'', PNone), (''created_at'', PDatetime 5),
          (''started_at'', PNone), (''mission_metadata'', PDict [])] ''status''
     = Some (PStr (str ''pending''))"
proof -
  let ?kw = "[''title'' \<mapsto> PStr (str ''Dawn''), ''status'' \<mapsto> PStr (str ''active''),
      ''objectives'' \<mapsto> PList [PStr (str ''scout''), PStr (str ''report'')]]"
  let ?d = "[(''title'', PStr (str ''Dawn'')), (''description'', PStr []),
      (''priority'', PStr (str ''medium'')), (''protocol_id'', PNone),
      (''assigned_entity'', PStr []), (''target_location'', PStr []),
      (''objectives'', PList [PStr (str ''scout''), PStr (str ''report'')]),
      (''estimated_completion'', PNone)]"
  let ?m = "[(''id'', PNone), (''title'', PStr (str ''Dawn'')), (''description'', PStr []),
          (''status'', PStr (str ''pending'')), (''priority'', PStr (str ''medium'')),
          (''protocol_id'', PNone), (''assigned_entity'', PStr []),
          (''target_location'', PStr []),
          (''objectives'', PList [PStr (str ''scout''), PStr (str ''report'')]),
          (''progress_percentage'', PDecimal 0), (''estimated_completion'', PNone),
          (''actual_completion'', PNone), (''created_at'', PDatetime 5),
          (''started_at'', PNone), (''mission_metadata'', PDict [])]"
  have s: "model_validate no_conversion MissionCreate 5 ?kw = Inr ?d"
    by (simp add: validate_unfold MissionCreate_def MissionPriority_def)
  have e: "model_validate no_conversion Mission 5 (map_of ?d) = Inr ?m"
    by (simp add: validate_unfold Mission_def MissionPriority_def MissionStatus_def)
  have c: "create_from no_conversion MissionCreate Mission 5 ?kw = Inr ?m"
    unfolding create_from_def s sum.case by (rule e)
  from mission_create_defaults[where lax = no_conversion and now = 5 and kw = ?kw and d = ?d and m = ?m] c show ?thesis
    by blast
qed

section \<open>The progress delta of a log entry\<close>

lemma progress_delta_decl:
  "(''progress_delta'', TDecimal, Field'\<lparr>default' := Default (PDecimal 0)\<rparr>)
     \<in> set (model_fields MissionLogEntry)"
  by (simp add: MissionLogEntry_def)

text \<open>
  C10. \<^verbatim>\<open>MissionLogEntry.progress_delta\<close> is declared a decimal with default 0 and with no
  lower and no upper bound. Validation of a log entry with any decimal for it, negative
  or beyond 100 as well, succeeds and stores that decimal, and validation with the field
  omitted succeeds and stores 0, in both cases provided no other field of the input is
  in error. The input of the validation is the entry's own data only: the owning
  Mission and its progress percentage are no part of it.
\<close>

theorem progress_delta_unbounded:
  "(\<exists>fi. (''progress_delta'', TDecimal, fi) \<in> set (model_fields MissionLogEntry)
       \<and> default' fi = Default (PDecimal 0) \<and> ge fi = None \<and> le fi = None)
   \<and> ((\<forall>g e. (g, e) \<in> set (validation_errors lax MissionLogEntry now kw) \<longrightarrow> g = ''progress_delta'') \<longrightarrow>
        (\<exists>r. model_validate lax MissionLogEntry now (kw(''progress_delta'' \<mapsto> PDecimal d)) = Inr r
           \<and> map_of r ''progress_delta'' = Some (PDecimal d))
        \<and> (\<exists>r. model_validate lax MissionLogEntry now (kw(''progress_delta'' := None)) = Inr r
           \<and> map_of r ''progress_delta'' = Some (PDecimal 0)))"
proof -
  let ?fi = "Field'\<lparr>default' := Default (PDecimal 0)\<rparr>"
  note decl = progress_delta_decl
  have fi: "default' ?fi = Default (PDecimal 0)" "ge ?fi = None" "le ?fi = None"
    by (simp_all add: Field'_def)
  have given: "validate_field lax now TDecimal ?fi (Some (PDecimal d)) = Inr (PDecimal d)"
    by (simp add: validate_field_def bound_errors_def fi)
  have omitted: "validate_field lax now TDecimal ?fi None = Inr (PDecimal 0)"
    by (simp add: validate_field_def fi)
  have "\<exists>r. model_validate lax MissionLogEntry now (kw(''progress_delta'' \<mapsto> PDecimal d)) = Inr r
           \<and> map_of r ''progress_delta'' = Some (PDecimal d)"
    if "\<forall>g e. (g, e) \<in> set (validation_errors lax MissionLogEntry now kw) \<longrightarrow> g = ''progress_delta''"
    by (rule set_field_succeeds[OF distinct_MissionLogEntry decl given that])
  moreover have "\<exists>r. model_validate lax MissionLogEntry now (kw(''progress_delta'' := None)) = Inr r
           \<and> map_of r ''progress_delta'' = Some (PDecimal 0)"
    if "\<forall>g e. (g, e) \<in> set (validation_errors lax MissionLogEntry now kw) \<longrightarrow> g = ''progress_delta''"
    by (rule set_field_succeeds[OF distinct_MissionLogEntry decl omitted that])
  ultimately show ?thesis
    using decl fi by blast
qed

theorem progress_delta_unbounded_witness:
  "(\<exists>r. model_validate no_conversion MissionLogEntry 0
       [''mission_id'' \<mapsto> PInt 1, ''message'' \<mapsto> PStr (str ''setback''),
        ''progress_delta'' \<mapsto> PDecimal (- 250)] = Inr r
         \<and> map_of r ''progress_delta'' = Some (PDecimal (- 250)))
   \<and> (\<exists>r. model_validate no_conversion MissionLogEntry 0
       [''mission_id'' \<mapsto> PInt 1, ''message'' \<mapsto> PStr (str ''setback'')] = Inr r
         \<and> map_of r ''progress_delta'' = Some (PDecimal 0))"
proof -
  let ?kw = "[''mission_id'' \<mapsto> PInt 1, ''message'' \<mapsto> PStr (str ''setback'')]"
  have ok: "\<forall>g e. (g, e) \<in> set (validation_errors no_conversion MissionLogEntry 0 ?kw) \<longrightarrow> g = ''progress_delta''"
    by (simp add: validate_unfold MissionLogEntry_def)
  have same: "?kw(''progress_delta'' := None) = ?kw"
    by (rule ext) simp
  show ?thesis
    using progress_delta_unbounded[where lax = no_conversion and now = 0 and kw = ?kw and d = "- 250"] ok same
    by simp
qed

end
